theory Spec2Isabelle
  imports Complex_Main "HOL-Library.AList" "HOL-Library.Multiset"
begin

chapter \<open>The orchestration core of the Human Hunter game\<close>

text \<open>
  A shallow embedding of the parts of the repository that run a game: the state of a
  room (backend/langgraph\_state.py), the resolution and the collection of the votes
  and the turn of an agent in the discussion (backend/main.py), the calls of the agent
  capability (backend/langgraph\_game.py), and the vote command of the chat platform
  (discord\_bot/game\_manager.py). The functions keep the names of the source, without
  the leading underscore, and a long one is cut into named steps. What the code takes
  from outside is an argument: the numbers the
  random generator draws, the replies of the language model, the clock, and what the
  other tasks of the process do while a task is suspended. An exception is a value of
  the result. The definitions come first, then the example sessions, then the
  properties.
\<close>

section \<open>Data model (backend/langgraph\_state.py)\<close>

text \<open>
  \<^verbatim>\<open>class Phase(str, Enum)\<close>: the four phases of a game.
\<close>

datatype Phase = DISCUSSION | VOTING | ELIMINATION | GAME_OVER

text \<open>
  \<^verbatim>\<open>role: Literal["human", "ai"]\<close>. The field \<^verbatim>\<open>winner\<close> of the state
  ranges over the same two literals.
\<close>

datatype role = Human | AI

text \<open>
  \<^verbatim>\<open>class PlayerInfo(TypedDict)\<close>. The key \<^verbatim>\<open>id\<close> is the field \<open>pid\<close>
  (\<open>id\<close> is the identity function of HOL).
\<close>

record PlayerInfo =
  pid :: string
  role :: role
  eliminated :: bool
  personality :: "string option"

text \<open>\<^verbatim>\<open>class ChatMessage(TypedDict)\<close>; a timestamp is a value of \<^verbatim>\<open>time.time()\<close>.\<close>

record ChatMessage =
  sender :: string
  message :: string
  timestamp :: real

text \<open>
  The messages handed to \<^verbatim>\<open>broadcast_to_room\<close> and stored in
  \<^verbatim>\<open>broadcast_queue\<close>, one constructor for each value of the key \<^verbatim>\<open>type\<close>.
\<close>

datatype typing_status = Start | Stop

datatype broadcast =
    Player_list "string list"
  | Topic string
  | Phase_changed Phase
  | Typing string typing_status
  | Message string string
  | Voted string
  | Voting_result "string option" "role option" "(string \<times> nat) list"
  | Game_over "role option"

text \<open>
  A Python dict keeps its keys in insertion order, and an assignment to a key that is
  present replaces the value in place: an association list with \<^const>\<open>AList.update\<close>.
  A vote's target is the value the client sent under \<^verbatim>\<open>voted_for\<close>; \<open>None\<close> is
  Python's \<^verbatim>\<open>None\<close> (the key was missing, or JSON \<^verbatim>\<open>null\<close>).
\<close>

type_synonym votes = "(string \<times> string option) list"

text \<open>
  \<^verbatim>\<open>class GameState(TypedDict)\<close>, with the two keys \<^verbatim>\<open>selected_suspect\<close> and
  \<^verbatim>\<open>suspect_role\<close> that \<^verbatim>\<open>complete_voting\<close> adds (read with \<^verbatim>\<open>state.get\<close>,
  so a missing key reads as \<open>None\<close>). The key \<^verbatim>\<open>round\<close> is the field \<open>round_no\<close>.
\<close>

record GameState =
  room_code :: string
  round_no :: nat
  phase :: Phase
  num_ai_players :: nat
  players :: "PlayerInfo list"
  chat_history :: "ChatMessage list"
  topic :: string
  votes :: votes
  ai_personalities :: "(string \<times> string) list"
  pseudonym_map :: "(string \<times> string) list"
  human_external_name :: string
  last_message_time :: real
  round_start_time :: real
  winner :: "role option"
  eliminated_player :: "string option"
  pending_ai_messages :: "string list"
  pending_ai_votes :: "string list"
  broadcast_queue :: "broadcast list"
  selected_suspect :: "string option"
  suspect_role :: "role option"

text \<open>
  One entry of the global dict \<^verbatim>\<open>rooms\<close> of backend/main.py: the game state and the
  set of agents with a turn in flight. Every operation below works on the entry of one
  room code; \<open>None\<close> stands for \<^verbatim>\<open>room_code not in rooms\<close>.
\<close>

record Room =
  state :: GameState
  ai_processing_agents :: "string set"

section \<open>Randomness\<close>

text \<open>
  \<^verbatim>\<open>random.choice(seq)\<close> returns \<^verbatim>\<open>seq[randbelow(len(seq))]\<close> and raises
  \<^verbatim>\<open>IndexError\<close> on an empty sequence (\<open>None\<close> here). The first argument is the
  number the generator draws; its remainder is the index.
\<close>

definition pick :: "nat \<Rightarrow> 'a list \<Rightarrow> 'a" where
  "pick r xs = xs ! (r mod length xs)"

definition random_choice :: "nat \<Rightarrow> 'a list \<Rightarrow> 'a option" where
  "random_choice r xs = (if xs = [] then None else Some (pick r xs))"

section \<open>Resolution of a vote (backend/main.py, complete\_voting)\<close>

text \<open>
  The loop of lines 310--314:
  \<^verbatim>\<open>
  for _, target in state.get('votes', {}).items():
      if target is None:
          continue
      vote_counts[target] = vote_counts.get(target, 0) + 1
  \<close>
\<close>

definition get_default :: "('k \<times> 'v) list \<Rightarrow> 'k \<Rightarrow> 'v \<Rightarrow> 'v" where
  "get_default d k v = (case map_of d k of None \<Rightarrow> v | Some x \<Rightarrow> x)"

fun tally :: "votes \<Rightarrow> (string \<times> nat) list \<Rightarrow> (string \<times> nat) list" where
  "tally [] vote_counts = vote_counts"
| "tally ((voter, None) # vs) vote_counts = tally vs vote_counts"
| "tally ((voter, Some target) # vs) vote_counts =
     tally vs (AList.update target (get_default vote_counts target 0 + 1) vote_counts)"

text \<open>
  \<^verbatim>\<open>max(vote_counts.values())\<close>; the call is guarded by \<^verbatim>\<open>if vote_counts\<close>, so the
  empty case (a \<^verbatim>\<open>ValueError\<close> in Python) is never evaluated.
\<close>

fun max_list :: "nat list \<Rightarrow> nat" where
  "max_list [] = 0"
| "max_list (x # xs) = max x (max_list xs)"

definition candidates :: "(string \<times> nat) list \<Rightarrow> string list" where
  "candidates vote_counts =
     map fst (filter (\<lambda>pc. snd pc = max_list (map snd vote_counts)) vote_counts)"

text \<open>
  Lines 315--319. \<open>r\<close> is the draw of the tie-break. The list \<open>candidates\<close> of a
  non-empty tally is never empty (\<open>candidates_nonempty\<close> below), so \<^verbatim>\<open>candidates[0]\<close>
  never raises.
\<close>

definition most_voted :: "nat \<Rightarrow> (string \<times> nat) list \<Rightarrow> string option" where
  "most_voted r vote_counts =
     (if vote_counts = [] then None
      else if length (candidates vote_counts) > 1 then random_choice r (candidates vote_counts)
      else (case candidates vote_counts of [] \<Rightarrow> None | c # cs \<Rightarrow> Some c))"

text \<open>
  Python's \<^verbatim>\<open>not suspect\<close>: true of \<^verbatim>\<open>None\<close> and of the empty string.
\<close>

definition falsy :: "string option \<Rightarrow> bool" where
  "falsy s = (s = None \<or> s = Some [])"

definition ai_ids :: "GameState \<Rightarrow> string list" where
  "ai_ids st = map pid (filter (\<lambda>p. role p = AI) (players st))"

text \<open>Lines 320--323; \<open>r\<close> is the draw of the fallback.\<close>

definition choose_suspect :: "nat \<Rightarrow> nat \<Rightarrow> GameState \<Rightarrow> string option" where
  "choose_suspect r1 r2 st =
     (let suspect = most_voted r1 (tally (votes st) []) in
      if falsy suspect
      then (if ai_ids st = [] then None else random_choice r2 (ai_ids st))
      else suspect)"

text \<open>
  Lines 324--328: the role of the first player whose id is the suspect. No player's id
  equals \<^verbatim>\<open>None\<close>.
\<close>

definition role_of :: "PlayerInfo list \<Rightarrow> string option \<Rightarrow> role option" where
  "role_of ps suspect =
     (case suspect of None \<Rightarrow> None
      | Some s \<Rightarrow> map_option role (find (\<lambda>p. pid p = s) ps))"

text \<open>
  \<^verbatim>\<open>game_over_node\<close> of backend/langgraph\_game.py returns the update
  \<^verbatim>\<open>{"phase": GAME_OVER, "broadcast_queue": [game_over]}\<close>, which
  \<^verbatim>\<open>state.update(result)\<close> writes into the state.
\<close>

definition game_over_node :: "GameState \<Rightarrow> GameState" where
  "game_over_node st = st\<lparr>phase := GAME_OVER, broadcast_queue := [Game_over (winner st)]\<rparr>"

text \<open>
  \<^verbatim>\<open>complete_voting\<close>, lines 291--350. The result is the room's entry after the call
  and the messages it broadcasts, in order. Lines 298--334 run without suspension, so
  the guard on the phase and the write of \<^verbatim>\<open>GAME_OVER\<close> are one atomic step. The
  file written by \<^verbatim>\<open>save_session_stats\<close> is not part of the state.
\<close>

definition resolve :: "nat \<Rightarrow> nat \<Rightarrow> GameState \<Rightarrow> GameState" where
  "resolve r1 r2 st =
     (let suspect = choose_suspect r1 r2 st;
          srole = role_of (players st) suspect
      in st\<lparr>selected_suspect := suspect,
            suspect_role := srole,
            winner := Some (if srole = Some AI then Human else AI),
            phase := GAME_OVER\<rparr>)"

definition complete_voting :: "nat \<Rightarrow> nat \<Rightarrow> Room option \<Rightarrow> Room option \<times> broadcast list" where
  "complete_voting r1 r2 rooms =
     (case rooms of
        None \<Rightarrow> (None, [])
      | Some room \<Rightarrow>
          if phase (state room) \<noteq> VOTING then (Some room, [])
          else
            let st = resolve r1 r2 (state room);
                result = Voting_result (selected_suspect st) (suspect_role st)
                           (tally (votes (state room)) []);
                st' = game_over_node st
            in (Some (room\<lparr>state := st'\<rparr>), result # broadcast_queue st'))"

text \<open>
  The number of votes a target has received: the entries of the votes mapping whose
  value is that target.
\<close>

definition votes_for :: "votes \<Rightarrow> string \<Rightarrow> nat" where
  "votes_for vs t = length (filter (\<lambda>v. snd v = Some t) vs)"

section \<open>Exceptions and the agent capability\<close>

text \<open>
  The exceptions the modelled code can raise. \<open>Other_error\<close> is any exception outside
  the classes named here (a connection error of the model client, for one). A result of
  type \<open>error + 'a\<close> is \<open>Inl e\<close> when the call raises \<open>e\<close>.
\<close>

datatype error =
  TypeError | KeyError | IndexError | AttributeError | JSONDecodeError | ValueError | Other_error

text \<open>What \<^verbatim>\<open>json.loads\<close> returns.\<close>

datatype json =
  JNull | JBool bool | JNum int | JStr string | JArr "json list" | JObj "(string \<times> json) list"

text \<open>Python's truth value of a decoded JSON value (\<^verbatim>\<open>if should_respond:\<close>).\<close>

fun truthy :: "json \<Rightarrow> bool" where
  "truthy JNull = False"
| "truthy (JBool b) = b"
| "truthy (JNum n) = (n \<noteq> 0)"
| "truthy (JStr s) = (s \<noteq> [])"
| "truthy (JArr xs) = (xs \<noteq> [])"
| "truthy (JObj kvs) = (kvs \<noteq> [])"

text \<open>
  One call of the capability where the answer is decoded,
  \<^verbatim>\<open>response = self.llm.invoke(messages); data = json.loads(response.content)\<close>:
  the call raises, or the content is not JSON (\<^verbatim>\<open>json.loads\<close> raises
  \<^verbatim>\<open>JSONDecodeError\<close>), or it decodes to a value. The capability is opaque: any
  reply is possible, whatever the prompt.
\<close>

datatype llm_reply = Raises error | Malformed | Json json

text \<open>One call where the answer is taken as text (\<^verbatim>\<open>return response.content\<close>).\<close>

datatype text_reply = Text_raises error | Text string

section \<open>An agent's vote (backend/langgraph\_game.py, \_generate\_ai\_vote)\<close>

text \<open>
  Lines 566--569. \<^verbatim>\<open>visible_name\<close> is the identity, so
  \<^verbatim>\<open>eligible_targets_visible\<close> is the same list.
\<close>

definition eligible_targets :: "GameState \<Rightarrow> string \<Rightarrow> string list" where
  "eligible_targets st ai_id =
     map pid (filter (\<lambda>p. \<not> eliminated p \<and> pid p \<noteq> ai_id) (players st))"

text \<open>\<^verbatim>\<open>list.index\<close>, for an element of the list.\<close>

fun index_of :: "'a \<Rightarrow> 'a list \<Rightarrow> nat" where
  "index_of x [] = 0"
| "index_of x (y # ys) = (if x = y then 0 else Suc (index_of x ys))"

text \<open>
  \<^verbatim>\<open>except (json.JSONDecodeError, KeyError, ValueError)\<close> of line 592.
\<close>

definition caught :: "error \<Rightarrow> bool" where
  "caught e = (e = JSONDecodeError \<or> e = KeyError \<or> e = ValueError)"

text \<open>
  The loop of lines 582--594 over the replies to its successive calls. The result is
  what the loop does (\<open>Inl e\<close>: it raises \<open>e\<close>; \<open>Inr (Some t)\<close>: it returns \<open>t\<close>;
  \<open>Inr None\<close>: it runs to its end) and the number of calls it has made. A decoded value
  that is not an object has no method \<^verbatim>\<open>get\<close>: \<^verbatim>\<open>vote_data.get("vote")\<close> raises
  \<^verbatim>\<open>AttributeError\<close>, which line 592 does not catch. Only a string can be equal to
  a member of the list of names.
\<close>

fun vote_attempts :: "string list \<Rightarrow> llm_reply list \<Rightarrow> (error + string option) \<times> nat" where
  "vote_attempts targets [] = (Inr None, 0)"
| "vote_attempts targets (reply # replies) =
     (let continue = (let (res, n) = vote_attempts targets replies in (res, Suc n)) in
      case reply of
        Raises e \<Rightarrow> if caught e then continue else (Inl e, 1)
      | Malformed \<Rightarrow> continue
      | Json (JObj vote_data) \<Rightarrow>
          (case map_of vote_data ''vote'' of
             Some (JStr voted_visible) \<Rightarrow>
               if voted_visible \<in> set targets
               then (Inr (Some (targets ! index_of voted_visible targets)), 1)
               else continue
           | _ \<Rightarrow> continue)
      | Json _ \<Rightarrow> (Inl AttributeError, 1))"

text \<open>
  The replies after which the loop goes on to its next attempt: an exception of line
  592, content that is not JSON, or an object whose \<^verbatim>\<open>vote\<close> is no name of the list.
\<close>

definition no_target :: "string list \<Rightarrow> llm_reply \<Rightarrow> bool" where
  "no_target targets reply =
     (case reply of
        Raises e \<Rightarrow> caught e
      | Malformed \<Rightarrow> True
      | Json (JObj vote_data) \<Rightarrow>
          (case map_of vote_data ''vote'' of
             Some (JStr v) \<Rightarrow> v \<notin> set targets
           | _ \<Rightarrow> True)
      | Json _ \<Rightarrow> False)"

text \<open>
  \<^verbatim>\<open>_generate_ai_vote(state, ai_id)\<close>: \<open>llm k\<close> is the reply to the call of attempt
  \<open>k\<close> of \<^verbatim>\<open>range(3)\<close>, and \<open>r\<close> the draw of the final \<^verbatim>\<open>random.choice\<close>, which
  raises \<^verbatim>\<open>IndexError\<close> on an empty list.
\<close>

definition generate_ai_vote :: "GameState \<Rightarrow> string \<Rightarrow> (nat \<Rightarrow> llm_reply) \<Rightarrow> nat \<Rightarrow> error + string" where
  "generate_ai_vote st ai_id llm r =
     (case fst (vote_attempts (eligible_targets st ai_id) (map llm [0..<3])) of
        Inl e \<Rightarrow> Inl e
      | Inr (Some target) \<Rightarrow> Inr target
      | Inr None \<Rightarrow>
          (case random_choice r (eligible_targets st ai_id) of
             None \<Rightarrow> Inl IndexError
           | Some target \<Rightarrow> Inr target))"

definition capability_calls :: "GameState \<Rightarrow> string \<Rightarrow> (nat \<Rightarrow> llm_reply) \<Rightarrow> nat" where
  "capability_calls st ai_id llm =
     snd (vote_attempts (eligible_targets st ai_id) (map llm [0..<3]))"

text \<open>
  \<^verbatim>\<open>ai_vote_agent_node(state, ai_id)\<close>, lines 225--258. It returns an update of the
  state: \<open>None\<close> is the empty dict \<^verbatim>\<open>{}\<close>.
\<close>

record vote_update =
  new_votes :: votes
  remaining_voters :: "string list"
  vote_broadcasts :: "broadcast list"

definition ai_vote_agent_node ::
  "GameState \<Rightarrow> string option \<Rightarrow> (string \<Rightarrow> nat \<Rightarrow> llm_reply) \<Rightarrow> (string \<Rightarrow> nat) \<Rightarrow>
   error + vote_update option" where
  "ai_vote_agent_node st ai_id llm rnd =
     (if pending_ai_votes st = [] then Inr None
      else
        let (ai, remaining) =
              (case ai_id of
                 None \<Rightarrow> (hd (pending_ai_votes st), tl (pending_ai_votes st))
               | Some a \<Rightarrow> (a, filter (\<lambda>aid. aid \<noteq> a) (pending_ai_votes st)))
        in case generate_ai_vote st ai (llm ai) (rnd ai) of
             Inl e \<Rightarrow> Inl e
           | Inr voted_for \<Rightarrow>
               Inr (Some \<lparr>new_votes = AList.update ai (Some voted_for) (votes st),
                          remaining_voters = remaining,
                          vote_broadcasts = [Voted ai]\<rparr>))"

section \<open>Collecting the votes (backend/main.py)\<close>

text \<open>
  \<^verbatim>\<open>[p['id'] for p in state['players'] if not p['eliminated']]\<close>, the list every
  completion check computes.
\<close>

definition active_players :: "GameState \<Rightarrow> string list" where
  "active_players st = map pid (filter (\<lambda>p. \<not> eliminated p) (players st))"

text \<open>\<^verbatim>\<open>dict.update(other)\<close>: every item of \<open>other\<close> is assigned, in order.\<close>

definition dict_update :: "('k \<times> 'v) list \<Rightarrow> ('k \<times> 'v) list \<Rightarrow> ('k \<times> 'v) list" where
  "dict_update d other = fold (\<lambda>kv acc. AList.update (fst kv) (snd kv) acc) other d"

text \<open>
  One turn of the loop of \<^verbatim>\<open>process_ai_votes\<close>, lines 262--282, for its first pending
  agent: the state after the write and the messages broadcast.
\<close>

definition ai_vote_write ::
  "(string \<Rightarrow> nat \<Rightarrow> llm_reply) \<Rightarrow> (string \<Rightarrow> nat) \<Rightarrow> GameState \<Rightarrow> error + GameState \<times> broadcast list" where
  "ai_vote_write llm rnd st =
     (case ai_vote_agent_node st (Some (hd (pending_ai_votes st))) llm rnd of
        Inl e \<Rightarrow> Inl e
      | Inr None \<Rightarrow> Inr (st\<lparr>pending_ai_votes := []\<rparr>, [])
      | Inr (Some u) \<Rightarrow>
          Inr (st\<lparr>votes := dict_update (votes st) (new_votes u),
                  pending_ai_votes := remaining_voters u\<rparr>,
               vote_broadcasts u))"

lemma ai_vote_write_pending:
  assumes "pending_ai_votes st \<noteq> []" and "ai_vote_write llm rnd st = Inr (st', bs)"
  shows "length (pending_ai_votes st') < length (pending_ai_votes st)"
proof -
  have "hd (pending_ai_votes st) \<in> set (pending_ai_votes st)" using assms(1) by simp
  then have "length (filter (\<lambda>aid. aid \<noteq> hd (pending_ai_votes st)) (pending_ai_votes st))
      < length (pending_ai_votes st)"
    by (intro length_filter_less) auto
  then show ?thesis using assms
    by (auto simp: ai_vote_write_def ai_vote_agent_node_def Let_def
        split: sum.splits option.splits if_splits)
qed

text \<open>
  \<^verbatim>\<open>process_ai_votes\<close>, lines 248--288: the exception that ended the task, if one did,
  the room and the messages broadcast. The calls of one agent's vote run in a worker
  thread; the model runs the task without interleaving.
\<close>

function process_ai_votes_loop ::
  "(string \<Rightarrow> nat \<Rightarrow> llm_reply) \<Rightarrow> (string \<Rightarrow> nat) \<Rightarrow> nat \<Rightarrow> nat \<Rightarrow> Room \<Rightarrow>
   error option \<times> Room option \<times> broadcast list" where
  "process_ai_votes_loop llm rnd r1 r2 room =
     (if pending_ai_votes (state room) \<noteq> [] \<and> phase (state room) = VOTING
      then
        (case ai_vote_write llm rnd (state room) of
           Inl e \<Rightarrow> (Some e, Some room, [])
         | Inr (st', bs) \<Rightarrow>
             if length (votes st') \<ge> length (active_players st')
             then (None, fst (complete_voting r1 r2 (Some (room\<lparr>state := st'\<rparr>))),
                   bs @ snd (complete_voting r1 r2 (Some (room\<lparr>state := st'\<rparr>))))
             else
               (case process_ai_votes_loop llm rnd r1 r2 (room\<lparr>state := st'\<rparr>) of
                  (err, rooms', bs') \<Rightarrow> (err, rooms', bs @ bs')))
      else (None, Some room, []))"
  by pat_completeness auto
termination
  by (relation "measure (\<lambda>(llm, rnd, r1, r2, room). length (pending_ai_votes (state room)))")
     (auto dest: ai_vote_write_pending)

definition process_ai_votes ::
  "(string \<Rightarrow> nat \<Rightarrow> llm_reply) \<Rightarrow> (string \<Rightarrow> nat) \<Rightarrow> nat \<Rightarrow> nat \<Rightarrow> Room option \<Rightarrow>
   error option \<times> Room option \<times> broadcast list" where
  "process_ai_votes llm rnd r1 r2 rooms =
     (case rooms of
        None \<Rightarrow> (None, None, [])
      | Some room \<Rightarrow> process_ai_votes_loop llm rnd r1 r2 room)"

text \<open>
  The answer of a REST endpoint: \<^verbatim>\<open>{"error": msg}\<close> or \<^verbatim>\<open>{"success": True}\<close>.
\<close>

datatype response = Error string | Success

text \<open>
  The body of the request to \<^verbatim>\<open>/api/rooms/{room_code}/vote\<close>; a missing key is
  \<open>None\<close>.
\<close>

record vote_data =
  player_id :: "string option"
  voted_for :: "string option"

text \<open>\<^verbatim>\<open>vote_data.get('player_id', 'StreamlitUser')\<close>\<close>

definition voter_of :: "vote_data \<Rightarrow> string" where
  "voter_of data = (case player_id data of None \<Rightarrow> ''StreamlitUser'' | Some p \<Rightarrow> p)"

text \<open>
  \<^verbatim>\<open>cast_vote\<close>, lines 1376--1422. The broadcast of line 1412 suspends the task; the
  model runs the call without interleaving.
\<close>

definition cast_vote ::
  "nat \<Rightarrow> nat \<Rightarrow> Room option \<Rightarrow> vote_data \<Rightarrow> response \<times> Room option \<times> broadcast list" where
  "cast_vote r1 r2 rooms data =
     (case rooms of
        None \<Rightarrow> (Error ''Room not found'', None, [])
      | Some room \<Rightarrow>
          let voter = voter_of data;
              st = state room
          in if phase st \<noteq> VOTING then (Error ''Not in voting phase'', Some room, [])
             else if voter \<in> set (map fst (votes st)) then (Error ''Already voted'', Some room, [])
             else
               let st' = st\<lparr>votes := AList.update voter (voted_for data) (votes st)\<rparr>;
                   room' = room\<lparr>state := st'\<rparr>
               in if length (votes st') \<ge> length (active_players st')
                  then (Success, fst (complete_voting r1 r2 (Some room')),
                        Voted voter # snd (complete_voting r1 r2 (Some room')))
                  else (Success, Some room', [Voted voter]))"

text \<open>
  \<^verbatim>\<open>process_human_vote\<close> of backend/langgraph\_game.py, lines 648--665: a copy of the
  state with the vote assigned.
\<close>

definition process_human_vote :: "GameState \<Rightarrow> string \<Rightarrow> string option \<Rightarrow> GameState" where
  "process_human_vote st voter target = st\<lparr>votes := AList.update voter target (votes st)\<rparr>"

text \<open>
  The branch \<^verbatim>\<open>data["type"] == "vote"\<close> of \<^verbatim>\<open>websocket_endpoint\<close>, lines 782--799,
  for the player \<open>voter\<close> of the connection.
\<close>

definition websocket_vote ::
  "nat \<Rightarrow> nat \<Rightarrow> Room option \<Rightarrow> string \<Rightarrow> string option \<Rightarrow> Room option \<times> broadcast list" where
  "websocket_vote r1 r2 rooms voter target =
     (case rooms of
        None \<Rightarrow> (None, [])
      | Some room \<Rightarrow>
          let st' = process_human_vote (state room) voter target;
              room' = room\<lparr>state := st'\<rparr>
          in if length (votes st') \<ge> length (active_players st')
             then (fst (complete_voting r1 r2 (Some room')),
                   Voted voter # snd (complete_voting r1 r2 (Some room')))
             else (Some room', [Voted voter]))"

section \<open>Votes on the chat platform (discord\_bot/game\_manager.py)\<close>

text \<open>
  \<^verbatim>\<open>DiscordPlayer\<close> of discord\_bot/utils.py, without the names shown to the users and
  the time of joining.
\<close>

record DiscordPlayer =
  discord_id :: nat
  game_player_id :: string

text \<open>
  \<^verbatim>\<open>class GameSession\<close>: the game state, the votes of the humans by Discord id, and the
  players of its room (\<^verbatim>\<open>session.room.players\<close>). The tasks, the locks and the ids
  of the direct messages are bookkeeping of the platform.
\<close>

record GameSession =
  session_state :: GameState
  session_votes :: "(nat \<times> string) list"
  room_players :: "(nat \<times> DiscordPlayer) list"

text \<open>The second component of the pair \<^verbatim>\<open>handle_channel_vote\<close> returns, by case.\<close>

datatype vote_answer =
    Session_not_found
  | Not_in_voting_phase Phase
  | Not_in_game
  | Eliminated_cannot_vote
  | Already_voted
  | Invalid_player "string list"
  | Vote_recorded string

text \<open>
  \<^verbatim>\<open>needle in text\<close> for two strings: \<open>needle\<close> occurs in \<open>text\<close>.
\<close>

fun starts_with :: "string \<Rightarrow> string \<Rightarrow> bool" where
  "starts_with text [] = True"
| "starts_with [] (c # needle) = False"
| "starts_with (d # text) (c # needle) = (d = c \<and> starts_with text needle)"

fun contains :: "string \<Rightarrow> string \<Rightarrow> bool" where
  "contains [] needle = (needle = [])"
| "contains (d # text) needle = (starts_with (d # text) needle \<or> contains text needle)"

text \<open>
  \<^verbatim>\<open>handle_channel_vote(room_code, discord_id, player_id)\<close>, lines 438--504, on the
  session of the room (\<open>None\<close>: no active game); \<open>voted\<close> is the argument
  \<^verbatim>\<open>player_id\<close>. The lines after 504 delete a direct message. Python's
  \<^verbatim>\<open>str.lower\<close> and \<^verbatim>\<open>str.strip\<close>, which work on Unicode text, are the arguments
  \<open>lower\<close> and \<open>strip\<close>.
\<close>

definition handle_channel_vote ::
  "(string \<Rightarrow> string) \<Rightarrow> (string \<Rightarrow> string) \<Rightarrow> GameSession option \<Rightarrow> nat \<Rightarrow> string \<Rightarrow>
   (bool \<times> vote_answer) \<times> GameSession option" where
  "handle_channel_vote lower strip sessions did voted =
     (case sessions of
        None \<Rightarrow> ((False, Session_not_found), None)
      | Some session \<Rightarrow>
          let st = session_state session in
          if phase st \<noteq> VOTING then ((False, Not_in_voting_phase (phase st)), Some session)
          else
            (case map_of (room_players session) did of
               None \<Rightarrow> ((False, Not_in_game), Some session)
             | Some player \<Rightarrow>
                 let player_obj = find (\<lambda>p. pid p = game_player_id player) (players st) in
                 if (case player_obj of None \<Rightarrow> False | Some p \<Rightarrow> eliminated p)
                 then ((False, Eliminated_cannot_vote), Some session)
                 else if did \<in> set (map fst (session_votes session))
                 then ((False, Already_voted), Some session)
                 else
                   let others = filter (\<lambda>p. \<not> eliminated p \<and> pid p \<noteq> game_player_id player)
                                  (players st);
                       target_player =
                         (case find (\<lambda>p. pid p = voted) others of
                            Some p \<Rightarrow> Some p
                          | None \<Rightarrow> find (\<lambda>p. contains (lower (pid p)) (strip (lower voted))) others)
                   in case target_player of
                        None \<Rightarrow> ((False, Invalid_player (map pid others)), Some session)
                      | Some p \<Rightarrow>
                          ((True, Vote_recorded (pid p)),
                           Some (session\<lparr>session_votes :=
                                   AList.update did (pid p) (session_votes session)\<rparr>))))"

text \<open>
  \<^verbatim>\<open>send_vote_dm(room_code, discord_id)\<close>, lines 530--577: the names of the menu the
  player is sent, or \<open>None\<close> when no message is sent. The menu lets the player select
  one of its names, as often as the player likes while it is shown, and each selection
  calls \<^verbatim>\<open>vote_callback\<close>, lines 562--565, with that name.
\<close>

definition send_vote_dm :: "GameSession option \<Rightarrow> nat \<Rightarrow> string list option" where
  "send_vote_dm sessions did =
     (case sessions of
        None \<Rightarrow> None
      | Some session \<Rightarrow>
          (case map_of (room_players session) did of
             None \<Rightarrow> None
           | Some player \<Rightarrow>
               let active_players =
                     map pid (filter (\<lambda>p. \<not> eliminated p \<and> pid p \<noteq> game_player_id player)
                                (players (session_state session)))
               in if active_players = [] then None else Some active_players))"

definition vote_callback :: "GameSession \<Rightarrow> nat \<Rightarrow> string \<Rightarrow> GameSession" where
  "vote_callback session did voted_player =
     session\<lparr>session_votes := AList.update did voted_player (session_votes session)\<rparr>"

text \<open>
  The writes with which \<^verbatim>\<open>run_discussion_phase\<close> (line 348) and
  \<^verbatim>\<open>run_voting_phase\<close> (lines 403--404) begin. The votes of the agents, in the state,
  are not cleared.
\<close>

definition enter_discussion_phase :: "GameSession \<Rightarrow> GameSession" where
  "enter_discussion_phase session =
     session\<lparr>session_state := (session_state session)\<lparr>phase := DISCUSSION\<rparr>\<rparr>"

definition enter_voting_phase :: "GameSession \<Rightarrow> GameSession" where
  "enter_voting_phase session =
     session\<lparr>session_state := (session_state session)\<lparr>phase := VOTING\<rparr>, session_votes := []\<rparr>"

text \<open>
  \<^verbatim>\<open>collect_ai_votes\<close>, lines 579--617: the agents that are not eliminated vote in
  turn, with \<^verbatim>\<open>_generate_ai_vote\<close>; a target that is not empty is written into the
  votes of the state. An exception of a vote ends the task.
\<close>

fun collect_votes_of :: "(string \<Rightarrow> nat \<Rightarrow> llm_reply) \<Rightarrow> (string \<Rightarrow> nat) \<Rightarrow> string list \<Rightarrow> GameState \<Rightarrow>
    error + GameState" where
  "collect_votes_of llm rnd [] st = Inr st"
| "collect_votes_of llm rnd (ai # ais) st =
     (case generate_ai_vote st ai (llm ai) (rnd ai) of
        Inl e \<Rightarrow> Inl e
      | Inr target \<Rightarrow>
          collect_votes_of llm rnd ais
            (if target \<noteq> [] then st\<lparr>votes := AList.update ai (Some target) (votes st)\<rparr> else st))"

definition collect_ai_votes ::
  "(string \<Rightarrow> nat \<Rightarrow> llm_reply) \<Rightarrow> (string \<Rightarrow> nat) \<Rightarrow> GameSession \<Rightarrow> error + GameSession" where
  "collect_ai_votes llm rnd session =
     (case collect_votes_of llm rnd
             (map pid (filter (\<lambda>p. role p = AI \<and> \<not> eliminated p) (players (session_state session))))
             (session_state session) of
        Inl e \<Rightarrow> Inl e
      | Inr st \<Rightarrow> Inr (session\<lparr>session_state := st\<rparr>))"

text \<open>
  \<^verbatim>\<open>Counter(values)\<close> counts the values in their order, and
  \<^verbatim>\<open>most_common(1)[0][0]\<close> of a counter that is not empty is its first key of maximal
  count.
\<close>

fun counter :: "'a list \<Rightarrow> ('a \<times> nat) list \<Rightarrow> ('a \<times> nat) list" where
  "counter [] counts = counts"
| "counter (x # xs) counts = counter xs (AList.update x (get_default counts x 0 + 1) counts)"

definition most_common :: "('a \<times> nat) list \<Rightarrow> 'a" where
  "most_common counts = fst (hd (filter (\<lambda>kc. snd kc = max_list (map snd counts)) counts))"

text \<open>\<^verbatim>\<open>eliminated_player["eliminated"] = True\<close> on the first player of that id.\<close>

fun mark_eliminated :: "string \<Rightarrow> PlayerInfo list \<Rightarrow> PlayerInfo list" where
  "mark_eliminated i [] = []"
| "mark_eliminated i (p # ps) =
     (if pid p = i then p\<lparr>eliminated := True\<rparr> # ps else p # mark_eliminated i ps)"

text \<open>
  \<^verbatim>\<open>process_votes\<close>, lines 619--661: the votes of the agents and of the humans are put
  together and the most voted player is marked eliminated. \<open>None\<close>: the function
  returns before it eliminates anyone (no vote, or a target that is no player). The
  lines 664--691 announce the result and go on to \<^verbatim>\<open>check_win_condition\<close>.
\<close>

definition all_votes :: "GameSession \<Rightarrow> votes" where
  "all_votes session =
     fold (\<lambda>(did, voted_player) acc.
             case map_of (room_players session) did of
               None \<Rightarrow> acc
             | Some player \<Rightarrow> AList.update (game_player_id player) (Some voted_player) acc)
       (session_votes session) (votes (session_state session))"

definition process_votes :: "GameSession \<Rightarrow> GameSession option" where
  "process_votes session =
     (let vote_counts = counter (map snd (all_votes session)) [] in
      if vote_counts = [] then None
      else
        (case most_common vote_counts of
           None \<Rightarrow> None
         | Some eliminated_player_id \<Rightarrow>
             (case find (\<lambda>p. pid p = eliminated_player_id) (players (session_state session)) of
                None \<Rightarrow> None
              | Some found \<Rightarrow>
                  Some (session\<lparr>session_state := (session_state session)
                          \<lparr>players := mark_eliminated eliminated_player_id
                                        (players (session_state session))\<rparr>\<rparr>))))"

text \<open>
  \<^verbatim>\<open>check_win_condition\<close>, lines 693--723, with the writes of \<^verbatim>\<open>end_game\<close> (lines
  740--741); \<open>rounds_to_win\<close> is \<^verbatim>\<open>ROUNDS_TO_WIN\<close> of backend/config.py, read from
  the environment (1 when it is not set). After \<open>Next_round\<close> the game goes on with
  \<^verbatim>\<open>run_discussion_phase\<close>.
\<close>

datatype verdict = Ended role | Next_round

definition end_game :: "role \<Rightarrow> GameSession \<Rightarrow> GameSession" where
  "end_game side session =
     session\<lparr>session_state := (session_state session)\<lparr>winner := Some side, phase := GAME_OVER\<rparr>\<rparr>"

definition check_win_condition :: "nat \<Rightarrow> GameSession \<Rightarrow> verdict \<times> GameSession" where
  "check_win_condition rounds_to_win session =
     (let remaining_humans =
            filter (\<lambda>p. role p = Human \<and> \<not> eliminated p) (players (session_state session))
      in if remaining_humans \<noteq> [] \<and> round_no (session_state session) \<ge> rounds_to_win
         then (Ended Human, end_game Human session)
         else if remaining_humans = [] then (Ended AI, end_game AI session)
         else (Next_round,
               session\<lparr>session_state := (session_state session)
                  \<lparr>round_no := round_no (session_state session) + 1\<rparr>\<rparr>))"

section \<open>The decision to speak (backend/langgraph\_game.py, \_should\_agent\_respond)\<close>

text \<open>
  \<^verbatim>\<open>_should_agent_respond(state, ai_id)\<close>, lines 418--498. Line 430 reads the agent's
  personality outside the \<^verbatim>\<open>try\<close>, so a missing agent is a \<^verbatim>\<open>KeyError\<close> of the
  call. Lines 431--486 build the prompt from the state. In the \<^verbatim>\<open>try\<close>, the reply is
  decoded and \<^verbatim>\<open>decision_data.get("should_respond", False)\<close> is returned as it is;
  \<^verbatim>\<open>except (json.JSONDecodeError, KeyError, Exception)\<close> catches every exception,
  that of a decoded value with no \<^verbatim>\<open>get\<close> too, and returns
  \<^verbatim>\<open>random.random() < 0.3\<close>. \<open>u\<close> is the number \<^verbatim>\<open>random.random()\<close> draws.
\<close>

definition should_agent_respond :: "GameState \<Rightarrow> string \<Rightarrow> llm_reply \<Rightarrow> real \<Rightarrow> error + json" where
  "should_agent_respond st ai_id reply u =
     (case map_of (ai_personalities st) ai_id of
        None \<Rightarrow> Inl KeyError
      | Some persona \<Rightarrow>
          (case reply of
             Json (JObj decision_data) \<Rightarrow>
               Inr (get_default decision_data ''should_respond'' (JBool False))
           | _ \<Rightarrow> Inr (JBool (u < 3 / 10))))"

text \<open>
  The agents that may speak, and the loop of \<^verbatim>\<open>trigger_agent_decisions\<close>
  (backend/main.py, lines 516--542): an agent is added when its decision is true; an
  exception of the decision is logged and the agent is left out.
\<close>

definition active_ais :: "GameState \<Rightarrow> string list" where
  "active_ais st = map pid (filter (\<lambda>p. role p = AI \<and> \<not> eliminated p) (players st))"

definition responding_ais ::
  "GameState \<Rightarrow> string list \<Rightarrow> (string \<Rightarrow> llm_reply) \<Rightarrow> (string \<Rightarrow> real) \<Rightarrow> string list" where
  "responding_ais st exclude_agents llm u =
     filter (\<lambda>ai_id. case should_agent_respond st ai_id (llm ai_id) (u ai_id) of
                        Inl e \<Rightarrow> False
                      | Inr should_respond \<Rightarrow> truthy should_respond)
       (filter (\<lambda>ai. ai \<notin> set exclude_agents) (active_ais st))"

section \<open>An agent's turn (backend/main.py, process\_single\_ai\_message)\<close>

text \<open>
  \<^verbatim>\<open>_generate_ai_message\<close>, lines 500--550: the personality is read outside the
  \<^verbatim>\<open>try\<close>; any exception of the call gives the text \<^verbatim>\<open>hmm\<close>.
\<close>

definition generate_ai_message :: "GameState \<Rightarrow> string \<Rightarrow> text_reply \<Rightarrow> error + string" where
  "generate_ai_message st ai_id reply =
     (case map_of (ai_personalities st) ai_id of
        None \<Rightarrow> Inl KeyError
      | Some persona \<Rightarrow>
          (case reply of Text_raises e \<Rightarrow> Inr ''hmm'' | Text content \<Rightarrow> Inr content))"

text \<open>
  The dict \<^verbatim>\<open>ai_chat_agent_node\<close> returns (lines 191--198); \<open>None\<close> below is the empty
  dict \<^verbatim>\<open>{}\<close>.
\<close>

record chat_result =
  result_chat_history :: "ChatMessage list"
  result_pending_ai_messages :: "string list"
  result_last_message_time :: real
  ai_message :: string
  ai_sender :: string
  typing_delay :: real

text \<open>
  \<^verbatim>\<open>ai_chat_agent_node(state, ai_id)\<close>, lines 157--198. \<open>now\<close> is the clock when the
  message is made and \<open>delay\<close> the draw of \<^verbatim>\<open>random.uniform(1, 2)\<close>. The wait of the
  cooldown changes no state.
\<close>

definition ai_chat_agent_node ::
  "GameState \<Rightarrow> string option \<Rightarrow> text_reply \<Rightarrow> real \<Rightarrow> real \<Rightarrow> error + chat_result option" where
  "ai_chat_agent_node st ai_id reply now delay =
     (if ai_id = None \<and> pending_ai_messages st = [] then Inr None
      else
        let (ai, remaining_ais) =
              (case ai_id of
                 None \<Rightarrow> (hd (pending_ai_messages st), tl (pending_ai_messages st))
               | Some a \<Rightarrow> (a, filter (\<lambda>aid. aid \<noteq> a) (pending_ai_messages st)))
        in case generate_ai_message st ai reply of
             Inl e \<Rightarrow> Inl e
           | Inr msg \<Rightarrow>
               Inr (Some \<lparr>result_chat_history = [\<lparr>sender = ai, message = msg, timestamp = now\<rparr>],
                          result_pending_ai_messages = remaining_ais,
                          result_last_message_time = now,
                          ai_message = msg,
                          ai_sender = ai,
                          typing_delay = delay\<rparr>))"

text \<open>
  The task suspends at its \<^verbatim>\<open>await\<close>s, and the other tasks of the process run
  meanwhile: the timer of the phase, the handlers of the clients, the turns of the other
  agents. An environment gives, for each suspension of the task, what they make of the
  room's entry in \<^verbatim>\<open>rooms\<close>. The suspensions of \<^verbatim>\<open>process_single_ai_message\<close>:
  0, the generation in the worker thread (line 380); 1, the broadcast of the typing
  indicator (414); 2, the typing delay (421); 3, the broadcast that stops the indicator
  when the turn is dropped after the delay (428), or the broadcast of the message (447);
  4, the broadcast that stops the indicator (452); 5, the pause of line 465.
\<close>

type_synonym environment = "nat \<Rightarrow> Room option \<Rightarrow> Room option"

text \<open>
  What a turn leaves: the exception that ended the task, if one did; the room's entry;
  the messages it has broadcast; and the agents excluded from the wave of decisions it
  has started with \<^verbatim>\<open>trigger_agent_decisions\<close>, if it has started one.
\<close>

record turn =
  raised :: "error option"
  rooms_after :: "Room option"
  sent :: "broadcast list"
  next_wave :: "string list option"

text \<open>The \<^verbatim>\<open>finally\<close> clause, lines 475--481.\<close>

definition finally_clause :: "string \<Rightarrow> Room option \<Rightarrow> Room option" where
  "finally_clause ai_id rooms =
     map_option (\<lambda>room. room\<lparr>ai_processing_agents := ai_processing_agents room - {ai_id}\<rparr>) rooms"

text \<open>
  \<^verbatim>\<open>process_single_ai_message(room_code, ai_id)\<close>, lines 356--481. A read of
  \<^verbatim>\<open>rooms[room_code]\<close> after the room is gone raises \<^verbatim>\<open>KeyError\<close>;
  \<^verbatim>\<open>broadcast_to_room\<close> returns at once, sending nothing, when the room is gone.
  Nothing suspends the task between the checks of lines 391 and 409. The worker thread
  is given the state the task has read at line 372.
\<close>

definition process_single_ai_message ::
  "environment \<Rightarrow> text_reply \<Rightarrow> real \<Rightarrow> real \<Rightarrow> Room option \<Rightarrow> string \<Rightarrow> turn" where
  "process_single_ai_message env reply now delay rooms ai_id =
     (case rooms of
        None \<Rightarrow> \<lparr>raised = None, rooms_after = None, sent = [], next_wave = None\<rparr>
      | Some room \<Rightarrow>
          if ai_id \<notin> set (pending_ai_messages (state room))
          then \<lparr>raised = None, rooms_after = finally_clause ai_id rooms, sent = [], next_wave = None\<rparr>
          else
            (case ai_chat_agent_node (state room) (Some ai_id) reply now delay of
               Inl e \<Rightarrow>
                 \<lparr>raised = Some e, rooms_after = finally_clause ai_id (env 0 rooms), sent = [],
                  next_wave = None\<rparr>
             | Inr None \<Rightarrow>
                 \<lparr>raised = None, rooms_after = finally_clause ai_id (env 0 rooms), sent = [],
                  next_wave = None\<rparr>
             | Inr (Some result) \<Rightarrow>
                 (case env 0 rooms of
                    None \<Rightarrow> \<lparr>raised = Some KeyError, rooms_after = None, sent = [], next_wave = None\<rparr>
                  | Some room1 \<Rightarrow>
                      if phase (state room1) \<noteq> DISCUSSION
                      then \<lparr>raised = None,
                            rooms_after = finally_clause ai_id (Some (room1\<lparr>state := (state room1)
                              \<lparr>pending_ai_messages :=
                                 filter (\<lambda>p. p \<noteq> ai_id) (pending_ai_messages (state room1))\<rparr>\<rparr>)),
                            sent = [], next_wave = None\<rparr>
                      else if phase (state room1) \<noteq> DISCUSSION
                      then \<lparr>raised = None, rooms_after = finally_clause ai_id (Some room1), sent = [],
                            next_wave = None\<rparr>
                      else
                        (case env 2 (env 1 (Some room1)) of
                           None \<Rightarrow>
                             \<lparr>raised = Some KeyError, rooms_after = None,
                              sent = [Typing (ai_sender result) Start], next_wave = None\<rparr>
                         | Some room3 \<Rightarrow>
                             if phase (state room3) \<noteq> DISCUSSION
                             then \<lparr>raised = None, rooms_after = finally_clause ai_id (env 3 (Some room3)),
                                   sent = [Typing (ai_sender result) Start,
                                           Typing (ai_sender result) Stop],
                                   next_wave = None\<rparr>
                             else
                               let committed = room3\<lparr>state := (state room3)
                                     \<lparr>chat_history :=
                                        chat_history (state room3) @ result_chat_history result,
                                      last_message_time := result_last_message_time result,
                                      pending_ai_messages := result_pending_ai_messages result\<rparr>\<rparr>;
                                   said = [Typing (ai_sender result) Start,
                                           Message (ai_sender result) (ai_message result)];
                                   stopped = (if env 3 (Some committed) = None then []
                                              else [Typing (ai_sender result) Stop])
                               in case env 5 (env 4 (env 3 (Some committed))) of
                                    None \<Rightarrow>
                                      \<lparr>raised = Some KeyError, rooms_after = None,
                                       sent = said @ stopped, next_wave = None\<rparr>
                                  | Some room5 \<Rightarrow>
                                      \<lparr>raised = None, rooms_after = finally_clause ai_id (Some room5),
                                       sent = said @ stopped,
                                       next_wave = (if phase (state room5) = DISCUSSION
                                                    then Some [ai_id] else None)\<rparr>))))"

text \<open>
  The end of the discussion, \<^verbatim>\<open>run_discussion_phase\<close>, lines 182--224, when its timer
  has run out: the change of phase and the messages it broadcasts. The broadcasts of
  lines 198--202 suspend the task between its writes; the model makes the writes in one
  step.
\<close>

definition end_discussion :: "Room option \<Rightarrow> Room option \<times> broadcast list" where
  "end_discussion rooms =
     (case rooms of
        None \<Rightarrow> (None, [])
      | Some room \<Rightarrow>
          if phase (state room) = DISCUSSION
          then (Some (room\<lparr>state := (state room)
                   \<lparr>phase := VOTING,
                    pending_ai_messages := [],
                    pending_ai_votes := active_ais (state room),
                    votes := []\<rparr>\<rparr>),
                map (\<lambda>ai. Typing ai Stop) (ai_ids (state room)) @ [Phase_changed VOTING])
          else (Some room, []))"

section \<open>A new game (backend/config.py, backend/langgraph\_state.py)\<close>

definition AI_PERSONALITIES :: "string list" where
  "AI_PERSONALITIES =
     [''slightly sarcastic'', ''very cheerful'', ''inquisitive'', ''quiet and observant'',
      ''enthusiastic'', ''analytical'', ''humorous'', ''philosophical'']"

definition GAME_TOPICS :: "string list" where
  "GAME_TOPICS =
     [''What's the best topping for pizza?'',
      ''If you could have any superpower, what would it be?'',
      ''What's your favorite movie and why?'',
      ''Tell a funny story from your childhood.'',
      ''If you could live in any time period, when would it be?'',
      ''What's your unpopular opinion?'',
      ''What's the worst advice you've ever received?'',
      ''If you could master any skill instantly, what would it be?'',
      ''Prove that you are not an AI, but a human being. It is an all-out war; if you are voted as an AI, you will be killed.'']"

text \<open>\<^verbatim>\<open>str(n)\<close> for a natural number: its decimal digits.\<close>

fun string_of_nat :: "nat \<Rightarrow> string" where
  "string_of_nat n =
     (if n < 10 then [char_of (48 + n)]
      else string_of_nat (n div 10) @ [char_of (48 + n mod 10)])"

declare string_of_nat.simps [simp del]

text \<open>
  \<^verbatim>\<open>random.shuffle(x)\<close>:
  \<^verbatim>\<open>
  for i in reversed(range(1, len(x))):
      j = randbelow(i + 1)
      x[i], x[j] = x[j], x[i]
  \<close>
  \<open>rnd i\<close> is the number the generator draws at the step \<open>i\<close>.
\<close>

definition swap :: "'a list \<Rightarrow> nat \<Rightarrow> nat \<Rightarrow> 'a list" where
  "swap xs i j = xs[i := xs ! j, j := xs ! i]"

fun shuffle_from :: "nat \<Rightarrow> (nat \<Rightarrow> nat) \<Rightarrow> 'a list \<Rightarrow> 'a list" where
  "shuffle_from 0 rnd xs = xs"
| "shuffle_from (Suc i) rnd xs =
     shuffle_from i rnd (swap xs (Suc i) (rnd (Suc i) mod (Suc i + 1)))"

definition shuffle :: "(nat \<Rightarrow> nat) \<Rightarrow> 'a list \<Rightarrow> 'a list" where
  "shuffle rnd xs = shuffle_from (length xs - 1) rnd xs"

text \<open>
  What \<^verbatim>\<open>create_initial_state\<close> takes from outside: the draws of its two shuffles, of
  the personality of the player at each position and of the topic, and the two readings
  of the clock.
\<close>

record draws =
  name_draws :: "nat \<Rightarrow> nat"
  personality_draws :: "nat \<Rightarrow> nat"
  pseudonym_draws :: "nat \<Rightarrow> nat"
  topic_draw :: nat
  clock_first :: real
  clock_second :: real

text \<open>
  \<^verbatim>\<open>[f"Player {i}" for i in range(1, num_ai_players + 1)]\<close> and
  \<^verbatim>\<open>[f"P{i+1}" for i in range(len(all_player_ids))]\<close>.
\<close>

definition player_names :: "nat \<Rightarrow> string list" where
  "player_names n = map (\<lambda>i. ''Player '' @ string_of_nat i) [1..<n + 1]"

definition pseudonyms :: "nat \<Rightarrow> string list" where
  "pseudonyms n = map (\<lambda>i. ''P'' @ string_of_nat (i + 1)) [0..<n]"

text \<open>
  \<^verbatim>\<open>create_initial_state(room_code, num_ai_players)\<close>, lines 81--145. A dict built
  from pairs is \<^const>\<open>dict_update\<close> of the empty dict.
\<close>

definition create_initial_state :: "draws \<Rightarrow> string \<Rightarrow> nat \<Rightarrow> GameState" where
  "create_initial_state d code n =
     (let ai_names = shuffle (name_draws d) (player_names n);
          personalities = map (\<lambda>k. pick (personality_draws d k) AI_PERSONALITIES)
                            [0..<length ai_names];
          ps = map (\<lambda>(name, p). \<lparr>pid = name, role = AI, eliminated = False,
                                    personality = Some p\<rparr>)
                 (zip ai_names personalities);
          all_player_ids = map pid ps;
          pseudos = shuffle (pseudonym_draws d) (pseudonyms (length all_player_ids))
      in \<lparr>room_code = code,
          round_no = 1,
          phase = DISCUSSION,
          num_ai_players = n,
          players = ps,
          chat_history = [],
          topic = pick (topic_draw d) GAME_TOPICS,
          votes = [],
          ai_personalities =
            dict_update [] (map (\<lambda>p. (pid p, case personality p of None \<Rightarrow> [] | Some x \<Rightarrow> x))
                              (filter (\<lambda>p. role p = AI) ps)),
          pseudonym_map = dict_update [] (zip all_player_ids pseudos),
          human_external_name = [],
          last_message_time = clock_first d,
          round_start_time = clock_second d,
          winner = None,
          eliminated_player = None,
          pending_ai_messages = [],
          pending_ai_votes = [],
          broadcast_queue = [],
          selected_suspect = None,
          suspect_role = None\<rparr>)"

text \<open>
  A Python call binds its positional arguments to the parameters of the function, and
  raises \<^verbatim>\<open>TypeError\<close> when there are more arguments than parameters.
  \<^verbatim>\<open>create_initial_state\<close> has the two parameters \<^verbatim>\<open>room_code\<close> and
  \<^verbatim>\<open>num_ai_players\<close>; \<open>extra\<close> are the positional arguments of a call after its first
  two.
\<close>

definition call_create_initial_state ::
  "draws \<Rightarrow> string \<Rightarrow> nat \<Rightarrow> string list option list \<Rightarrow> error + GameState" where
  "call_create_initial_state d code n extra =
     (if extra \<noteq> [] then Inl TypeError else Inr (create_initial_state d code n))"

text \<open>
  \<^verbatim>\<open>create_game_for_room(room_code, num_ai_players, ai_player_ids)\<close> of
  backend/langgraph\_game.py, lines 603--615:
  \<^verbatim>\<open>return create_initial_state(room_code, num_ai_players, ai_player_ids)\<close>.
  An omitted \<^verbatim>\<open>ai_player_ids\<close> has the default \<^verbatim>\<open>None\<close>, and is passed on all the
  same.
\<close>

definition create_game_for_room ::
  "draws \<Rightarrow> string \<Rightarrow> nat \<Rightarrow> string list option \<Rightarrow> error + GameState" where
  "create_game_for_room d code n ai_player_ids =
     call_create_initial_state d code n [ai_player_ids]"

section \<open>Tasks that hold the state of a room (backend/main.py)\<close>

text \<open>
  The state of a room is a Python dict, and \<^verbatim>\<open>rooms[room_code]['state']\<close> holds a
  reference to it. \<^verbatim>\<open>process_human_vote\<close> returns a copy, which the WebSocket handler
  installs in the room (lines 787--788); a task that has read the reference before
  keeps the old dict. The store below makes this explicit: the state dicts by address,
  the address the room holds, the next free address, and the messages broadcast to the
  room so far. The values inside a state dict are taken as values: the copy of
  \<^verbatim>\<open>process_human_vote\<close> is given a votes dict of its own (langgraph\_game.py 659--663).
\<close>

record shared_room =
  dicts :: "nat \<Rightarrow> GameState"
  current :: nat
  next_free :: nat
  broadcasts :: "broadcast list"

text \<open>
  \<^verbatim>\<open>complete_voting\<close>, lines 291--350, on the store: it reads the dict the room holds
  and writes into that dict.
\<close>

definition complete_voting_shared :: "nat \<Rightarrow> nat \<Rightarrow> shared_room \<Rightarrow> shared_room" where
  "complete_voting_shared r1 r2 sr =
     (let st = dicts sr (current sr) in
      if phase st \<noteq> VOTING then sr
      else
        let resolved = resolve r1 r2 st;
            result = Voting_result (selected_suspect resolved) (suspect_role resolved)
                       (tally (votes st) []);
            st' = game_over_node resolved
        in sr\<lparr>dicts := (dicts sr)(current sr := st'),
              broadcasts := broadcasts sr @ result # broadcast_queue st'\<rparr>)"

text \<open>
  The branch \<^verbatim>\<open>data["type"] == "vote"\<close> of \<^verbatim>\<open>websocket_endpoint\<close>, lines 782--799,
  on the store: the state read at line 743 is copied with the vote, and the copy is
  installed.
\<close>

definition websocket_vote_shared ::
  "nat \<Rightarrow> nat \<Rightarrow> string \<Rightarrow> string option \<Rightarrow> shared_room \<Rightarrow> shared_room" where
  "websocket_vote_shared r1 r2 voter target sr =
     (let new_state = process_human_vote (dicts sr (current sr)) voter target;
          installed = sr\<lparr>dicts := (dicts sr)(next_free sr := new_state),
                          current := next_free sr,
                          next_free := Suc (next_free sr),
                          broadcasts := broadcasts sr @ [Voted voter]\<rparr>
      in if length (votes new_state) \<ge> length (active_players new_state)
         then complete_voting_shared r1 r2 installed
         else installed)"

text \<open>
  \<^verbatim>\<open>process_ai_votes\<close>, lines 248--288, on the store. The task reads the reference
  once (line 258) and holds it in its variable \<^verbatim>\<open>state\<close>: \<open>held\<close> is its address.
  In turn \<open>k\<close> of the loop the task is suspended while the worker thread makes the
  agent's vote (line 266), and \<open>env k\<close> is what the other tasks do to the store
  meanwhile. The worker reads the pending agents and the players when it starts, and
  copies the votes (langgraph\_game.py 247) when the capability has answered. Line 277
  installs the held dict in the room again. The loop ends when the held dict has no
  pending agent or is not in the phase \<^verbatim>\<open>VOTING\<close>; other tasks can write into that
  dict, so the function is partial. The result is the exception that ended the task,
  if one did, and the store.
\<close>

partial_function (option) process_ai_votes_from ::
  "(string \<Rightarrow> nat \<Rightarrow> llm_reply) \<Rightarrow> (string \<Rightarrow> nat) \<Rightarrow> nat \<Rightarrow> nat \<Rightarrow>
   (nat \<Rightarrow> shared_room \<Rightarrow> shared_room) \<Rightarrow> nat \<Rightarrow> nat \<Rightarrow> shared_room \<Rightarrow>
   (error option \<times> shared_room) option" where
  "process_ai_votes_from llm rnd r1 r2 env k held sr =
     (if pending_ai_votes (dicts sr held) \<noteq> [] \<and> phase (dicts sr held) = VOTING
      then
        (case ai_vote_agent_node
                ((dicts sr held)\<lparr>votes := votes (dicts (env k sr) held)\<rparr>)
                (Some (hd (pending_ai_votes (dicts sr held)))) llm rnd of
           Inl e \<Rightarrow> Some (Some e, env k sr)
         | Inr result \<Rightarrow>
             (let st' = (case result of
                           None \<Rightarrow> (dicts (env k sr) held)\<lparr>pending_ai_votes := []\<rparr>
                         | Some u \<Rightarrow>
                             (dicts (env k sr) held)
                               \<lparr>votes := dict_update (votes (dicts (env k sr) held)) (new_votes u),
                                pending_ai_votes := remaining_voters u\<rparr>);
                  written = (env k sr)
                    \<lparr>dicts := (dicts (env k sr))(held := st'),
                     current := held,
                     broadcasts := broadcasts (env k sr) @
                       (case result of None \<Rightarrow> [] | Some u \<Rightarrow> vote_broadcasts u)\<rparr>
              in if length (votes st') \<ge> length (active_players st')
                 then Some (None, complete_voting_shared r1 r2 written)
                 else process_ai_votes_from llm rnd r1 r2 env (Suc k) held written))
      else Some (None, sr))"

definition process_ai_votes_shared ::
  "(string \<Rightarrow> nat \<Rightarrow> llm_reply) \<Rightarrow> (string \<Rightarrow> nat) \<Rightarrow> nat \<Rightarrow> nat \<Rightarrow>
   (nat \<Rightarrow> shared_room \<Rightarrow> shared_room) \<Rightarrow> shared_room \<Rightarrow> (error option \<times> shared_room) option" where
  "process_ai_votes_shared llm rnd r1 r2 env sr =
     process_ai_votes_from llm rnd r1 r2 env 0 (current sr) sr"

section \<open>Example sessions\<close>

text \<open>
  The scenario of the specification: one human and three agents, in one room.
\<close>

definition player :: "string \<Rightarrow> role \<Rightarrow> bool \<Rightarrow> PlayerInfo" where
  "player i r e =
     \<lparr>pid = i, role = r, eliminated = e,
      personality = (if r = AI then Some ''inquisitive'' else None)\<rparr>"

definition session :: "Phase \<Rightarrow> PlayerInfo list \<Rightarrow> votes \<Rightarrow> GameState" where
  "session ph ps vs =
     \<lparr>room_code = ''AB12CD'', round_no = 1, phase = ph, num_ai_players = length (filter (\<lambda>p. role p = AI) ps),
      players = ps, chat_history = [], topic = ''What's your unpopular opinion?'', votes = vs,
      ai_personalities = map (\<lambda>p. (pid p, ''inquisitive'')) (filter (\<lambda>p. role p = AI) ps),
      pseudonym_map = [], human_external_name = [], last_message_time = 0, round_start_time = 0, winner = None,
      eliminated_player = None, pending_ai_messages = [], pending_ai_votes = [],
      broadcast_queue = [], selected_suspect = None, suspect_role = None\<rparr>"

definition room_of :: "GameState \<Rightarrow> Room" where
  "room_of st = \<lparr>state = st, ai_processing_agents = {}\<rparr>"

definition three_agents_one_human :: "PlayerInfo list" where
  "three_agents_one_human =
     [player ''A1'' AI False, player ''A2'' AI False, player ''A3'' AI False, player ''H'' Human False]"

definition votes_of_agents :: votes where
  "votes_of_agents = [(''A1'', Some ''H''), (''A2'', Some ''H''), (''A3'', Some ''H'')]"

text \<open>An agent capability that always answers with a vote for the same target.\<close>

definition always_votes :: "string \<Rightarrow> string \<Rightarrow> nat \<Rightarrow> llm_reply" where
  "always_votes target ai k = Json (JObj [(''vote'', JStr target), (''reason'', JStr ''quiet'')])"

text \<open>
  A discussion in which the agent \<open>A1\<close> has decided to speak and its turn is in
  flight; the message its turn generates; the room once the timer of the discussion has
  fired; and the environment in which the timer fires during suspension \<open>k\<close> of the
  turn and nothing else happens.
\<close>

definition discussion_room :: Room where
  "discussion_room =
     \<lparr>state = (session DISCUSSION three_agents_one_human [])\<lparr>pending_ai_messages := [''A1'']\<rparr>,
      ai_processing_agents = {''A1''}\<rparr>"

definition said :: chat_result where
  "said = \<lparr>result_chat_history = [\<lparr>sender = ''A1'', message = ''pineapple, obviously'', timestamp = 12\<rparr>],
            result_pending_ai_messages = [],
            result_last_message_time = 12,
            ai_message = ''pineapple, obviously'',
            ai_sender = ''A1'',
            typing_delay = 3 / 2\<rparr>"

definition voting_room :: Room where
  "voting_room =
     \<lparr>state = (session VOTING three_agents_one_human [])\<lparr>pending_ai_votes := [''A1'', ''A2'', ''A3'']\<rparr>,
      ai_processing_agents = {''A1''}\<rparr>"

definition timer_fires_at :: "nat \<Rightarrow> environment" where
  "timer_fires_at k = (\<lambda>i rooms. if i = k then fst (end_discussion rooms) else rooms)"

text \<open>
  A room made by the WebSocket endpoint, whose players are its two agents, with the
  task \<^verbatim>\<open>process_ai_votes\<close> about to run; the agents vote for each other; and the
  environment in which a client \<open>H\<close> of the room sends its vote, for \<open>A1\<close>,
  during suspension \<open>k\<close> of the task. Then the states and the stores the run goes
  through.
\<close>

definition two_agents :: "PlayerInfo list" where
  "two_agents = [player ''A1'' AI False, player ''A2'' AI False]"

definition held_start :: GameState where
  "held_start = (session VOTING two_agents [])\<lparr>pending_ai_votes := [''A1'', ''A2'']\<rparr>"

definition held_one_vote :: GameState where
  "held_one_vote = (session VOTING two_agents [(''A1'', Some ''A2'')])\<lparr>pending_ai_votes := [''A2'']\<rparr>"

definition copy_resolved :: GameState where
  "copy_resolved =
     (session GAME_OVER two_agents [(''A1'', Some ''A2''), (''H'', Some ''A1'')])
       \<lparr>pending_ai_votes := [''A2''], selected_suspect := Some ''A2'', suspect_role := Some AI,
        winner := Some Human, broadcast_queue := [Game_over (Some Human)]\<rparr>"

definition held_resolved :: GameState where
  "held_resolved =
     (session GAME_OVER two_agents [(''A1'', Some ''A2''), (''A2'', Some ''A1'')])
       \<lparr>selected_suspect := Some ''A1'', suspect_role := Some AI,
        winner := Some Human, broadcast_queue := [Game_over (Some Human)]\<rparr>"

definition websocket_room :: shared_room where
  "websocket_room = \<lparr>dicts = (\<lambda>a. held_start), current = 0, next_free = 1, broadcasts = []\<rparr>"

definition vote_each_other :: "string \<Rightarrow> nat \<Rightarrow> llm_reply" where
  "vote_each_other ai k = Json (JObj [(''vote'', JStr (if ai = ''A1'' then ''A2'' else ''A1''))])"

definition human_votes_during :: "nat \<Rightarrow> nat \<Rightarrow> shared_room \<Rightarrow> shared_room" where
  "human_votes_during k = (\<lambda>i sr. if i = k then websocket_vote_shared 0 0 ''H'' (Some ''A1'') sr else sr)"

definition room_after_first_agent :: shared_room where
  "room_after_first_agent =
     \<lparr>dicts = (\<lambda>a. held_start)(0 := held_one_vote),
      current = 0, next_free = 1, broadcasts = [Voted ''A1'']\<rparr>"

definition room_after_human :: shared_room where
  "room_after_human =
     \<lparr>dicts = (\<lambda>a. held_start)(0 := held_one_vote, 1 := copy_resolved),
      current = 1, next_free = 2,
      broadcasts = [Voted ''A1'', Voted ''H'',
                    Voting_result (Some ''A2'') (Some AI) [(''A2'', 1), (''A1'', 1)],
                    Game_over (Some Human)]\<rparr>"

definition room_after_race :: shared_room where
  "room_after_race =
     \<lparr>dicts = (\<lambda>a. held_start)(0 := held_resolved, 1 := copy_resolved),
      current = 0, next_free = 2,
      broadcasts = [Voted ''A1'', Voted ''H'',
                    Voting_result (Some ''A2'') (Some AI) [(''A2'', 1), (''A1'', 1)],
                    Game_over (Some Human),
                    Voted ''A2'',
                    Voting_result (Some ''A1'') (Some AI) [(''A2'', 1), (''A1'', 1)],
                    Game_over (Some Human)]\<rparr>"

text \<open>
  A game on the chat platform with two agents and the two humans \<open>H1\<close> and
  \<open>H2\<close>, of Discord ids 1 and 2; and the votes of the two agents for \<open>H1\<close>.
\<close>

definition two_humans :: "bool \<Rightarrow> PlayerInfo list" where
  "two_humans h1_eliminated =
     [player ''A1'' AI False, player ''A2'' AI False,
      player ''H1'' Human h1_eliminated, player ''H2'' Human False]"

definition discord_session :: "GameState \<Rightarrow> (nat \<times> string) list \<Rightarrow> GameSession" where
  "discord_session st human_votes =
     \<lparr>session_state = st, session_votes = human_votes,
      room_players = [(1, \<lparr>discord_id = 1, game_player_id = ''H1''\<rparr>),
                      (2, \<lparr>discord_id = 2, game_player_id = ''H2''\<rparr>)]\<rparr>"

definition votes_against_h1 :: votes where
  "votes_against_h1 = [(''A1'', Some ''H1''), (''A2'', Some ''H1'')]"

section \<open>The tally and its maximisers\<close>

lemma get_default_update:
  "get_default (AList.update k v d) k' x = (if k' = k then v else get_default d k' x)"
  by (simp add: get_default_def update_conv')

lemma tally_get:
  "get_default (tally vs vc) t 0 = votes_for vs t + get_default vc t 0"
  by (induction vs vc rule: tally.induct) (auto simp: votes_for_def get_default_update)

lemma keys_update: "fst ` set (AList.update k v al) = insert k (fst ` set al)"
  using dom_update [of k v al] by (simp add: dom_map_of_conv_image_fst)

lemma tally_keys:
  "fst ` set (tally vs vc) = fst ` set vc \<union> {t. 0 < votes_for vs t}"
proof (induction vs vc rule: tally.induct)
  case (3 voter target vs vc)
  show ?case unfolding tally.simps 3 keys_update by (auto simp: votes_for_def)
qed (auto simp: votes_for_def)

lemma tally_distinct:
  "distinct (map fst vc) \<Longrightarrow> distinct (map fst (tally vs vc))"
  by (induction vs vc rule: tally.induct) (auto simp: distinct_update)

lemma list_all_update:
  "list_all P al \<Longrightarrow> P (k, v) \<Longrightarrow> list_all P (AList.update k v al)"
  by (induction al) auto

lemma tally_pos:
  "list_all (\<lambda>pc. 0 < snd pc) vc \<Longrightarrow> list_all (\<lambda>pc. 0 < snd pc) (tally vs vc)"
proof (induction vs vc rule: tally.induct)
  case (3 voter target vs vc)
  have "list_all (\<lambda>pc. 0 < snd pc) (AList.update target (get_default vc target 0 + 1) vc)"
    using 3(2) by (intro list_all_update) simp_all
  then show ?case using 3 by simp
qed auto

lemma tally_entry:
  "(t, c) \<in> set (tally vs []) \<longleftrightarrow> c = votes_for vs t \<and> 0 < c"
proof
  assume h: "(t, c) \<in> set (tally vs [])"
  have d: "distinct (map fst (tally vs []))" by (simp add: tally_distinct)
  from h d have "map_of (tally vs []) t = Some c" by simp
  then have "get_default (tally vs []) t 0 = c" by (simp add: get_default_def)
  then have "c = votes_for vs t" using tally_get [of vs "[]" t] by (simp add: get_default_def)
  moreover have "0 < c" using tally_pos [of "[]" vs] h by (auto simp: list_all_iff)
  ultimately show "c = votes_for vs t \<and> 0 < c" by simp
next
  assume h: "c = votes_for vs t \<and> 0 < c"
  then have "t \<in> fst ` set (tally vs [])" by (simp add: tally_keys)
  then obtain c' where c': "(t, c') \<in> set (tally vs [])" by auto
  have d: "distinct (map fst (tally vs []))" by (simp add: tally_distinct)
  from c' d have "map_of (tally vs []) t = Some c'" by simp
  then have "get_default (tally vs []) t 0 = c'" by (simp add: get_default_def)
  then have "c' = votes_for vs t" using tally_get [of vs "[]" t] by (simp add: get_default_def)
  with h c' show "(t, c) \<in> set (tally vs [])" by simp
qed

lemma max_list_ge: "x \<in> set xs \<Longrightarrow> x \<le> max_list xs"
  by (induction xs) auto

lemma max_list_mem: "xs \<noteq> [] \<Longrightarrow> max_list xs \<in> set xs"
proof (induction xs)
  case (Cons a xs)
  then show ?case by (cases "xs = []") (auto simp: max_def)
qed simp

lemma set_candidates:
  "set (candidates vc) = {t. (t, max_list (map snd vc)) \<in> set vc}"
  by (force simp: candidates_def)

lemma candidates_nonempty: "vc \<noteq> [] \<Longrightarrow> candidates vc \<noteq> []"
proof -
  assume "vc \<noteq> []"
  then have "max_list (map snd vc) \<in> set (map snd vc)" by (intro max_list_mem) simp
  then obtain t where "(t, max_list (map snd vc)) \<in> set vc" by auto
  then have "t \<in> set (candidates vc)" by (simp add: set_candidates)
  then show ?thesis by auto
qed

lemma distinct_candidates: "distinct (map fst vc) \<Longrightarrow> distinct (candidates vc)"
  by (simp add: candidates_def distinct_map_filter)

lemma most_voted_index:
  "vc \<noteq> [] \<Longrightarrow> most_voted r vc = Some (candidates vc ! (r mod length (candidates vc)))"
  using candidates_nonempty [of vc]
  by (cases "candidates vc") (auto simp: most_voted_def random_choice_def pick_def)

lemma tally_nonempty: "tally vs [] \<noteq> [] \<longleftrightarrow> (\<exists>t. 0 < votes_for vs t)"
proof -
  have "tally vs [] \<noteq> [] \<longleftrightarrow> fst ` set (tally vs []) \<noteq> {}" by simp
  then show ?thesis unfolding tally_keys by auto
qed

lemma candidates_tally:
  assumes "0 < votes_for vs t0"
  shows "set (candidates (tally vs [])) = {s. 0 < votes_for vs s \<and> (\<forall>t. votes_for vs t \<le> votes_for vs s)}"
proof -
  let ?vc = "tally vs []" and ?m = "max_list (map snd (tally vs []))"
  have ne: "?vc \<noteq> []" using assms tally_nonempty by blast
  have "?m \<in> set (map snd ?vc)" using ne by (intro max_list_mem) simp
  then obtain tm where tm: "(tm, ?m) \<in> set ?vc" by auto
  then have m: "?m = votes_for vs tm" "0 < ?m" by (simp_all add: tally_entry)
  have ub: "votes_for vs t \<le> ?m" for t
  proof (cases "0 < votes_for vs t")
    case True
    then have "(t, votes_for vs t) \<in> set ?vc" by (simp add: tally_entry)
    then have "votes_for vs t \<in> set (map snd ?vc)" by force
    then show ?thesis by (rule max_list_ge)
  qed simp
  show ?thesis
  proof (intro set_eqI iffI)
    fix s assume "s \<in> set (candidates ?vc)"
    then have "(s, ?m) \<in> set ?vc" by (simp add: set_candidates)
    then have "?m = votes_for vs s" by (simp add: tally_entry)
    with ub m show "s \<in> {s. 0 < votes_for vs s \<and> (\<forall>t. votes_for vs t \<le> votes_for vs s)}" by simp
  next
    fix s assume "s \<in> {s. 0 < votes_for vs s \<and> (\<forall>t. votes_for vs t \<le> votes_for vs s)}"
    then have s: "0 < votes_for vs s" "votes_for vs tm \<le> votes_for vs s" by auto
    with ub [of s] m have "votes_for vs s = ?m" by simp
    with s have "(s, ?m) \<in> set ?vc" by (simp add: tally_entry)
    then show "s \<in> set (candidates ?vc)" by (simp add: set_candidates)
  qed
qed

section \<open>Resolution of a vote: properties\<close>

lemmas fixtures = room_of_def session_def three_agents_one_human_def player_def

lemmas cv_eval = complete_voting_def resolve_def choose_suspect_def most_voted_def candidates_def
  random_choice_def pick_def falsy_def ai_ids_def role_of_def game_over_node_def get_default_def Let_def
  votes_for_def

lemma complete_voting_state:
  "phase (state room) = VOTING \<Longrightarrow>
   fst (complete_voting r1 r2 (Some room)) =
     Some (room\<lparr>state := game_over_node (resolve r1 r2 (state room))\<rparr>)"
  by (simp add: complete_voting_def Let_def)

lemma most_voted_tally:
  assumes "\<exists>v\<in>set vs. snd v \<noteq> None"
  shows "most_voted r (tally vs []) =
           Some (candidates (tally vs []) ! (r mod length (candidates (tally vs []))))"
    and "candidates (tally vs []) ! (r mod length (candidates (tally vs [])))
           \<in> set (candidates (tally vs []))"
    and "set (candidates (tally vs [])) =
           {s. 0 < votes_for vs s \<and> (\<forall>t. votes_for vs t \<le> votes_for vs s)}"
proof -
  from assms obtain voter t where "(voter, Some t) \<in> set vs" by force
  then have "filter (\<lambda>v. snd v = Some t) vs \<noteq> []" by (force simp: filter_empty_conv)
  then have pos: "0 < votes_for vs t" by (simp add: votes_for_def)
  then have ne: "tally vs [] \<noteq> []" using tally_nonempty by blast
  show "most_voted r (tally vs []) =
           Some (candidates (tally vs []) ! (r mod length (candidates (tally vs []))))"
    using ne by (rule most_voted_index)
  show "candidates (tally vs []) ! (r mod length (candidates (tally vs [])))
           \<in> set (candidates (tally vs []))"
    using candidates_nonempty [OF ne] by simp
  show "set (candidates (tally vs [])) =
           {s. 0 < votes_for vs s \<and> (\<forall>t. votes_for vs t \<le> votes_for vs s)}"
    using pos by (rule candidates_tally)
qed

lemma set_ai_ids: "set (ai_ids st) = pid ` {p \<in> set (players st). role p = AI}"
  by (auto simp: ai_ids_def)

subsection \<open>The most voted target is the suspect\<close>

text \<open>
  Claim C1, as the code has it. \<^verbatim>\<open>complete_voting\<close> skips the entries whose target
  is \<^verbatim>\<open>None\<close> and takes a suspect that is \<^verbatim>\<open>None\<close> or the empty string for no
  suspect. So: when voting resolves in a session whose votes hold at least one target
  that is not \<^verbatim>\<open>None\<close>, and no target that is the empty string, the selected suspect
  \<open>s\<close> has received a vote and no target has received more votes than \<open>s\<close>; the
  tied targets are listed once each, they are exactly the targets with the maximal
  count, and \<open>s\<close> is the one at the index the generator draws (the only one when there
  is no tie); the winner is the human side if the role of \<open>s\<close> is agent, and the agent
  side otherwise.
\<close>

theorem complete_voting_selects_most_voted:
  assumes ph: "phase (state room) = VOTING"
    and some: "\<exists>v\<in>set (votes (state room)). snd v \<noteq> None"
    and nonempty: "Some [] \<notin> set (map snd (votes (state room)))"
  shows "\<exists>room' s.
      fst (complete_voting r1 r2 (Some room)) = Some room' \<and>
      selected_suspect (state room') = Some s \<and>
      0 < votes_for (votes (state room)) s \<and>
      (\<forall>t. votes_for (votes (state room)) t \<le> votes_for (votes (state room)) s) \<and>
      distinct (candidates (tally (votes (state room)) [])) \<and>
      set (candidates (tally (votes (state room)) [])) =
        {t. 0 < votes_for (votes (state room)) t \<and>
            (\<forall>u. votes_for (votes (state room)) u \<le> votes_for (votes (state room)) t)} \<and>
      s = candidates (tally (votes (state room)) [])
            ! (r1 mod length (candidates (tally (votes (state room)) []))) \<and>
      suspect_role (state room') = role_of (players (state room)) (Some s) \<and>
      winner (state room') = Some (if suspect_role (state room') = Some AI then Human else AI) \<and>
      phase (state room') = GAME_OVER"
proof -
  let ?vs = "votes (state room)"
  let ?c = "candidates (tally ?vs [])"
  let ?s = "?c ! (r1 mod length ?c)"
  note mv = most_voted_tally(1) [OF some, of r1] most_voted_tally(2) [OF some, of r1]
    most_voted_tally(3) [OF some]
  have mem: "?s \<in> {s. 0 < votes_for ?vs s \<and> (\<forall>t. votes_for ?vs t \<le> votes_for ?vs s)}"
    using mv(2) unfolding mv(3) .
  then have pos: "0 < votes_for ?vs ?s" by simp
  have "?s \<noteq> []"
  proof
    assume e: "?s = []"
    from pos have "filter (\<lambda>v. snd v = Some ?s) ?vs \<noteq> []" by (simp add: votes_for_def)
    then obtain v where "v \<in> set ?vs" "snd v = Some ?s" by (auto simp: filter_empty_conv)
    with e nonempty show False by force
  qed
  then have cs: "choose_suspect r1 r2 (state room) = Some ?s"
    by (simp add: choose_suspect_def mv(1) falsy_def)
  have d: "distinct ?c" by (intro distinct_candidates tally_distinct) simp
  show ?thesis
    apply (rule exI [of _ "room\<lparr>state := game_over_node (resolve r1 r2 (state room))\<rparr>"])
    apply (rule exI [of _ ?s])
    using mem d mv(3) by (simp add: complete_voting_state [OF ph] game_over_node_def resolve_def Let_def cs)
qed

text \<open>
  Claim C1 at the scenario of the specification: the three agents vote for the human
  \<open>H\<close>, who votes for \<open>A1\<close>; the suspect is \<open>H\<close>, with three votes, and the agent
  side wins.
\<close>

theorem complete_voting_selects_most_voted_witness:
  "phase (state (room_of (session VOTING three_agents_one_human
      [(''A1'', Some ''H''), (''A2'', Some ''H''), (''A3'', Some ''H''), (''H'', Some ''A1'')]))) = VOTING \<and>
   (\<exists>v\<in>set (votes (state (room_of (session VOTING three_agents_one_human
      [(''A1'', Some ''H''), (''A2'', Some ''H''), (''A3'', Some ''H''), (''H'', Some ''A1'')])))).
      snd v \<noteq> None) \<and>
   Some [] \<notin> set (map snd (votes (state (room_of (session VOTING three_agents_one_human
      [(''A1'', Some ''H''), (''A2'', Some ''H''), (''A3'', Some ''H''), (''H'', Some ''A1'')]))))) \<and>
   selected_suspect (state (the (fst (complete_voting 0 0 (Some (room_of (session VOTING three_agents_one_human
      [(''A1'', Some ''H''), (''A2'', Some ''H''), (''A3'', Some ''H''), (''H'', Some ''A1'')]))))))) = Some ''H'' \<and>
   votes_for [(''A1'', Some ''H''), (''A2'', Some ''H''), (''A3'', Some ''H''), (''H'', Some ''A1'')] ''H'' = 3 \<and>
   winner (state (the (fst (complete_voting 0 0 (Some (room_of (session VOTING three_agents_one_human
      [(''A1'', Some ''H''), (''A2'', Some ''H''), (''A3'', Some ''H''), (''H'', Some ''A1'')]))))))) = Some AI"
  using complete_voting_selects_most_voted [of "room_of (session VOTING three_agents_one_human
      [(''A1'', Some ''H''), (''A2'', Some ''H''), (''A3'', Some ''H''), (''H'', Some ''A1'')])" 0 0]
  by (simp add: fixtures cv_eval)

text \<open>
  Claim C1 as it is written fails on a votes mapping that is not empty and holds no
  target: the only voter sent no \<^verbatim>\<open>voted_for\<close>. The suspect is drawn among the
  agents, and has no vote.
\<close>

theorem complete_voting_null_target_counterexample:
  "votes (state (room_of (session VOTING three_agents_one_human [(''H'', None)]))) \<noteq> [] \<and>
   selected_suspect (state (the (fst (complete_voting 0 0
      (Some (room_of (session VOTING three_agents_one_human [(''H'', None)])))))))
     = Some ''A1'' \<and>
   votes_for [(''H'', None)] ''A1'' = 0"
  by (simp add: fixtures cv_eval)

subsection \<open>A second call on the same state\<close>

text \<open>
  In a state whose phase is not \<^verbatim>\<open>VOTING\<close>, \<^verbatim>\<open>complete_voting\<close> returns the room
  as it is and broadcasts nothing, and so does a second call on the room a first call
  has left. This is the guard of line 303 on its own; the section on the race of the
  triggers shows what the tasks that call it make of it.
\<close>

lemma complete_voting_idempotent:
  "(phase (state room) \<noteq> VOTING \<longrightarrow> complete_voting r1 r2 (Some room) = (Some room, [])) \<and>
   complete_voting r3 r4 (fst (complete_voting r1 r2 rooms)) = (fst (complete_voting r1 r2 rooms), [])"
  by (cases rooms) (simp_all add: complete_voting_def Let_def game_over_node_def)

subsection \<open>Resolution without votes\<close>

lemma active_ais_all:
  "filter (\<lambda>p. role p = AI \<and> eliminated p) (players st) = [] \<Longrightarrow> active_ais st = ai_ids st"
proof -
  assume "filter (\<lambda>p. role p = AI \<and> eliminated p) (players st) = []"
  then have "\<forall>p\<in>set (players st). (role p = AI \<and> \<not> eliminated p) = (role p = AI)"
    by (auto simp: filter_empty_conv)
  then have "filter (\<lambda>p. role p = AI \<and> \<not> eliminated p) (players st)
           = filter (\<lambda>p. role p = AI) (players st)"
    by (intro filter_cong) auto
  then show ?thesis by (simp add: active_ais_def ai_ids_def)
qed

text \<open>
  Claim C5, as the code has it. \<^verbatim>\<open>complete_voting\<close> draws the suspect among the
  players whose role is agent, and takes no suspect when there is none. So: when voting
  resolves with an empty votes mapping, in a session where no agent is marked
  eliminated, the suspect is drawn among the agents that are not eliminated, at the
  index the generator draws; the outcome is not \<^verbatim>\<open>None\<close> exactly when the session
  has an agent; without a suspect the agent side wins. The phase is \<^verbatim>\<open>GAME_OVER\<close> in
  both cases.
\<close>

theorem complete_voting_without_votes:
  assumes ph: "phase (state room) = VOTING"
    and empty: "votes (state room) = []"
    and none_eliminated: "filter (\<lambda>p. role p = AI \<and> eliminated p) (players (state room)) = []"
  shows "\<exists>room'.
      fst (complete_voting r1 r2 (Some room)) = Some room' \<and>
      phase (state room') = GAME_OVER \<and>
      selected_suspect (state room') = random_choice r2 (active_ais (state room)) \<and>
      (selected_suspect (state room') \<noteq> None) = (\<exists>p\<in>set (players (state room)). role p = AI) \<and>
      (selected_suspect (state room') = None \<longrightarrow> winner (state room') = Some AI)"
proof -
  have cs: "choose_suspect r1 r2 (state room) = random_choice r2 (active_ais (state room))"
    by (simp add: choose_suspect_def empty most_voted_def falsy_def random_choice_def
        active_ais_all [OF none_eliminated])
  have ex: "(active_ais (state room) \<noteq> []) = (\<exists>p\<in>set (players (state room)). role p = AI)"
    unfolding active_ais_all [OF none_eliminated] by (auto simp: ai_ids_def filter_empty_conv)
  show ?thesis
    apply (rule exI [of _ "room\<lparr>state := game_over_node (resolve r1 r2 (state room))\<rparr>"])
    using ex by (auto simp add: complete_voting_state [OF ph] game_over_node_def resolve_def
        Let_def cs random_choice_def role_of_def)
qed

text \<open>
  Claim C5 on the session of one human and three agents: the draw 4 selects the second
  agent.
\<close>

theorem complete_voting_without_votes_witness:
  "phase (state (room_of (session VOTING three_agents_one_human []))) = VOTING \<and>
   votes (state (room_of (session VOTING three_agents_one_human []))) = [] \<and>
   filter (\<lambda>p. role p = AI \<and> eliminated p)
     (players (state (room_of (session VOTING three_agents_one_human [])))) = [] \<and>
   active_ais (state (room_of (session VOTING three_agents_one_human []))) = [''A1'', ''A2'', ''A3''] \<and>
   selected_suspect (state (the (fst (complete_voting 0 4
      (Some (room_of (session VOTING three_agents_one_human []))))))) = Some ''A2''"
  using complete_voting_without_votes [of "room_of (session VOTING three_agents_one_human [])" 0 4]
  by (simp add: fixtures cv_eval active_ais_def)

text \<open>
  Claim C5 as it is written fails twice: a session of one human and no agent resolves
  to no suspect; and \<^verbatim>\<open>complete_voting\<close> does not look at \<^verbatim>\<open>eliminated\<close>, so in a
  session whose first agent is eliminated the draw 0 selects that agent.
\<close>

theorem complete_voting_no_votes_counterexample:
  "votes (state (room_of (session VOTING [player ''H'' Human False] []))) = [] \<and>
   phase (state (room_of (session VOTING [player ''H'' Human False] []))) = VOTING \<and>
   selected_suspect (state (the (fst (complete_voting 0 0
      (Some (room_of (session VOTING [player ''H'' Human False] []))))))) = None \<and>
   selected_suspect (state (the (fst (complete_voting 0 0
      (Some (room_of (session VOTING [player ''A1'' AI True, player ''A2'' AI False, player ''H'' Human False] []))))))) = Some ''A1'' \<and>
   eliminated (player ''A1'' AI True)"
  by (simp add: fixtures cv_eval)

section \<open>Votes: properties\<close>

lemma index_of_nth: "x \<in> set xs \<Longrightarrow> xs ! index_of x xs = x"
  by (induction xs) auto

lemma vote_attempts_target:
  "fst (vote_attempts targets replies) = Inr (Some t) \<Longrightarrow> t \<in> set targets"
proof (induction replies)
  case (Cons reply replies)
  then show ?case
    by (auto simp: Let_def index_of_nth split: llm_reply.splits json.splits option.splits
        if_splits prod.splits)
qed simp

lemma vote_attempts_calls: "snd (vote_attempts targets replies) \<le> length replies"
proof (induction replies)
  case (Cons reply replies)
  then show ?case
    by (auto simp: Let_def split: llm_reply.splits json.splits option.splits if_splits prod.splits)
qed simp

lemma capability_calls_le: "capability_calls st ai_id llm \<le> 3"
  using vote_attempts_calls [of "eligible_targets st ai_id" "map llm [0..<3]"]
  by (simp add: capability_calls_def)

lemma generate_ai_vote_eligible:
  assumes "generate_ai_vote st ai_id llm r = Inr t"
  shows "t \<in> set (eligible_targets st ai_id)"
proof (cases "fst (vote_attempts (eligible_targets st ai_id) (map llm [0..<3]))")
  case (Inl e)
  with assms show ?thesis by (simp add: generate_ai_vote_def)
next
  case (Inr res)
  show ?thesis
  proof (cases res)
    case None
    with Inr assms show ?thesis
      by (auto simp: generate_ai_vote_def random_choice_def pick_def split: if_splits)
  next
    case (Some t')
    with Inr assms have "t' = t" by (simp add: generate_ai_vote_def)
    with Inr Some show ?thesis using vote_attempts_target by blast
  qed
qed

lemma eligible_targets_iff:
  "t \<in> set (eligible_targets st ai_id) \<longleftrightarrow>
     (\<exists>p \<in> set (players st). pid p = t \<and> \<not> eliminated p) \<and> t \<noteq> ai_id"
  by (auto simp: eligible_targets_def)

lemma vote_attempts_exhausted:
  "list_all (no_target targets) replies \<Longrightarrow>
   vote_attempts targets replies = (Inr None, length replies)"
proof (induction replies)
  case (Cons reply replies)
  then show ?case
    by (auto simp: Let_def no_target_def split: llm_reply.splits json.splits option.splits)
qed simp

lemma generate_ai_vote_fallback:
  assumes "list_all (no_target (eligible_targets st ai_id)) (map llm [0..<3])"
    and "eligible_targets st ai_id \<noteq> []"
  shows "generate_ai_vote st ai_id llm r =
           Inr (eligible_targets st ai_id ! (r mod length (eligible_targets st ai_id)))"
    and "capability_calls st ai_id llm = 3"
  using vote_attempts_exhausted [OF assms(1)] assms(2)
  by (simp_all add: generate_ai_vote_def capability_calls_def random_choice_def pick_def)

lemmas vote_eval = generate_ai_vote_def eligible_targets_def caught_def random_choice_def pick_def
  capability_calls_def Let_def

lemmas cast_eval = cast_vote_def voter_of_def websocket_vote_def process_human_vote_def active_players_def

lemmas loop_eval = ai_vote_write_def ai_vote_agent_node_def dict_update_def always_votes_def
  votes_of_agents_def


lemma cast_vote_already_voted:
  assumes "phase (state room) = VOTING"
    and "voter_of data \<in> set (map fst (votes (state room)))"
  shows "cast_vote r1 r2 (Some room) data = (Error ''Already voted'', Some room, [])"
  using assms by (simp add: cast_vote_def Let_def)

lemma handle_channel_vote_eliminated:
  assumes "phase (session_state game) = VOTING"
    and "map_of (room_players game) did = Some voter"
    and "find (\<lambda>p. pid p = game_player_id voter) (players (session_state game)) = Some p"
    and "eliminated p"
  shows "handle_channel_vote lower strip (Some game) did voted =
           ((False, Eliminated_cannot_vote), Some game)"
  using assms by (simp add: handle_channel_vote_def Let_def)

subsection \<open>A second vote of the same voter\<close>

text \<open>
  Claim C4 holds of \<^verbatim>\<open>cast_vote\<close> (\<open>cast_vote_already_voted\<close>), and fails on the
  WebSocket path: \<^verbatim>\<open>process_human_vote\<close> assigns the vote whatever the mapping
  holds. The human \<open>H\<close> has voted for \<open>A1\<close> and votes again, for \<open>A2\<close>: the second
  target replaces the first and no signal is given, where \<^verbatim>\<open>cast_vote\<close> answers
  \<^verbatim>\<open>Already voted\<close> and leaves the votes as they are.
\<close>

theorem process_human_vote_overwrites:
  "votes (process_human_vote (session VOTING three_agents_one_human [(''H'', Some ''A1'')])
      ''H'' (Some ''A2'')) = [(''H'', Some ''A2'')] \<and>
   websocket_vote 0 0 (Some (room_of (session VOTING three_agents_one_human [(''H'', Some ''A1'')])))
      ''H'' (Some ''A2'')
     = (Some (room_of (session VOTING three_agents_one_human [(''H'', Some ''A2'')])), [Voted ''H'']) \<and>
   cast_vote 0 0 (Some (room_of (session VOTING three_agents_one_human [(''H'', Some ''A1'')])))
      \<lparr>player_id = Some ''H'', voted_for = Some ''A2''\<rparr>
     = (Error ''Already voted'',
        Some (room_of (session VOTING three_agents_one_human [(''H'', Some ''A1'')])), [])"
  by (simp add: fixtures cast_eval Let_def)

subsection \<open>The completion check\<close>



subsection \<open>The vote of an agent\<close>

text \<open>
  Claim C9 holds as far as \<open>capability_calls_le\<close>, \<open>generate_ai_vote_eligible\<close> and
  \<open>generate_ai_vote_fallback\<close> go: at most three calls, a returned target that is
  eligible, and the random choice after three replies of the kinds line 592 expects. It
  fails on the other replies: when the capability answers with JSON that is not an
  object, or raises an exception outside the three classes of line 592,
  \<^verbatim>\<open>_generate_ai_vote\<close> raises after its first call and returns no target, and the
  task \<^verbatim>\<open>process_ai_votes\<close> ends with that exception, no agent's vote written.
\<close>

theorem generate_ai_vote_uncaught:
  "eligible_targets (session VOTING three_agents_one_human []) ''A1'' = [''A2'', ''A3'', ''H''] \<and>
   generate_ai_vote (session VOTING three_agents_one_human []) ''A1'' (\<lambda>k. Json (JArr [])) 0
     = Inl AttributeError \<and>
   capability_calls (session VOTING three_agents_one_human []) ''A1'' (\<lambda>k. Json (JArr [])) = 1 \<and>
   generate_ai_vote (session VOTING three_agents_one_human []) ''A1'' (\<lambda>k. Raises Other_error) 0
     = Inl Other_error \<and>
   process_ai_votes (\<lambda>ai k. Json (JArr [])) (\<lambda>ai. 0) 0 0 (Some voting_room)
     = (Some AttributeError, Some voting_room, [])"
  by (simp add: fixtures vote_eval upt_rec voting_room_def process_ai_votes_def loop_eval)

section \<open>The discussion: properties\<close>

lemmas decide_eval = should_agent_respond_def responding_ais_def active_ais_def get_default_def

subsection \<open>The decision when the capability fails\<close>

text \<open>
  Claim C8, as the code has it. When the decision call raises, or answers with content
  that is not JSON, \<^verbatim>\<open>_should_agent_respond\<close> returns \<^verbatim>\<open>random.random() < 0.3\<close>:
  the decision is true exactly when the number drawn is below 0.3, and the loop of
  \<^verbatim>\<open>trigger_agent_decisions\<close> lets the agent speak exactly then.
\<close>

theorem should_agent_respond_fallback:
  assumes "map_of (ai_personalities st) ai_id = Some persona"
    and "reply = Raises e \<or> reply = Malformed"
  shows "should_agent_respond st ai_id reply u = Inr (JBool (u < 3 / 10)) \<and>
         (ai_id \<in> set (active_ais st) \<and> ai_id \<notin> set exclude_agents \<and> llm ai_id = reply \<longrightarrow>
          (ai_id \<in> set (responding_ais st exclude_agents llm draw)) = (draw ai_id < 3 / 10))"
  using assms by (auto simp: should_agent_respond_def responding_ais_def)

text \<open>
  Claim C8 on the agent \<open>A1\<close>, content that is not JSON and the draw 0.5: the agent
  does not speak.
\<close>

theorem should_agent_respond_fallback_witness:
  "map_of (ai_personalities (session DISCUSSION three_agents_one_human [])) ''A1'' = Some ''inquisitive'' \<and>
   should_agent_respond (session DISCUSSION three_agents_one_human []) ''A1'' Malformed (1 / 2)
     = Inr (JBool False) \<and>
   ''A1'' \<in> set (active_ais (session DISCUSSION three_agents_one_human [])) \<and>
   ''A1'' \<notin> set (responding_ais (session DISCUSSION three_agents_one_human []) []
                    (\<lambda>ai. Malformed) (\<lambda>ai. 1 / 2))"
  using should_agent_respond_fallback [where st = "session DISCUSSION three_agents_one_human []"
      and ai_id = "''A1''" and persona = "''inquisitive''" and reply = Malformed
      and u = "1 / 2" and exclude_agents = "[]" and llm = "\<lambda>ai. Malformed" and draw = "\<lambda>ai. 1 / 2"]
  by (simp add: fixtures decide_eval)

text \<open>
  Claim C8 as it is written fails when the draw is below 0.3: the call raises, or its
  content is not JSON, the number drawn is 0.1, and the decision is true; the agent
  \<open>A1\<close> is among those that speak.
\<close>

theorem should_agent_respond_counterexample:
  "should_agent_respond (session DISCUSSION three_agents_one_human []) ''A1''
      (Raises Other_error) (1 / 10) = Inr (JBool True) \<and>
   should_agent_respond (session DISCUSSION three_agents_one_human []) ''A1''
      Malformed (1 / 10) = Inr (JBool True) \<and>
   responding_ais (session DISCUSSION three_agents_one_human []) []
      (\<lambda>ai. Raises Other_error) (\<lambda>ai. if ai = ''A1'' then 1 / 10 else 1 / 2) = [''A1'']"
  by (simp add: fixtures decide_eval)

subsection \<open>A turn that ends after the discussion\<close>

lemma finally_clause_state:
  "map_option state (finally_clause ai_id rooms) = map_option state rooms"
  by (cases rooms) (simp_all add: finally_clause_def)

lemma finally_clause_processing:
  "finally_clause ai_id rooms = Some room' \<Longrightarrow> ai_id \<notin> ai_processing_agents room'"
  by (cases rooms) (auto simp: finally_clause_def)

text \<open>
  Claim C2. An agent's turn is in flight: the agent is pending, its message has been
  generated, and the room is \<open>room1\<close> when the generation ends. If the phase of
  \<open>room1\<close> is not \<^verbatim>\<open>DISCUSSION\<close> (the checks of lines 391 and 409, before the typing
  indicator), the turn ends there: it broadcasts nothing, the chat history and the phase
  of the room are those of \<open>room1\<close>, and the agent is no longer in the processing set.
  If the phase is \<^verbatim>\<open>DISCUSSION\<close> then, and no longer when the typing delay ends in the
  room \<open>room3\<close> (the check of line 425), the turn broadcasts the start and the stop of
  the typing indicator and no message, the state of the room is what the other tasks
  have left, nothing appended, and the agent is no longer in the processing set of the
  room, if the room is still there. In both cases no exception is raised and no new
  wave of decisions is started.
\<close>

theorem stale_turn_is_dropped:
  assumes pend: "ai_id \<in> set (pending_ai_messages (state room))"
    and gen: "ai_chat_agent_node (state room) (Some ai_id) reply now delay = Inr (Some result)"
    and after_generation: "env 0 (Some room) = Some room1"
  shows
    "(phase (state room1) \<noteq> DISCUSSION \<longrightarrow>
        raised (process_single_ai_message env reply now delay (Some room) ai_id) = None \<and>
        sent (process_single_ai_message env reply now delay (Some room) ai_id) = [] \<and>
        next_wave (process_single_ai_message env reply now delay (Some room) ai_id) = None \<and>
        (\<exists>room'. rooms_after (process_single_ai_message env reply now delay (Some room) ai_id)
                    = Some room' \<and>
                  chat_history (state room') = chat_history (state room1) \<and>
                  phase (state room') = phase (state room1) \<and>
                  ai_id \<notin> ai_processing_agents room')) \<and>
     (phase (state room1) = DISCUSSION \<and> env 2 (env 1 (Some room1)) = Some room3 \<and>
      phase (state room3) \<noteq> DISCUSSION \<longrightarrow>
        raised (process_single_ai_message env reply now delay (Some room) ai_id) = None \<and>
        sent (process_single_ai_message env reply now delay (Some room) ai_id)
          = [Typing (ai_sender result) Start, Typing (ai_sender result) Stop] \<and>
        next_wave (process_single_ai_message env reply now delay (Some room) ai_id) = None \<and>
        map_option state (rooms_after (process_single_ai_message env reply now delay (Some room) ai_id))
          = map_option state (env 3 (Some room3)) \<and>
        (\<forall>room'. rooms_after (process_single_ai_message env reply now delay (Some room) ai_id)
                    = Some room' \<longrightarrow> ai_id \<notin> ai_processing_agents room'))"
proof (intro conjI impI)
  assume moved: "phase (state room1) \<noteq> DISCUSSION"
  have t: "process_single_ai_message env reply now delay (Some room) ai_id =
      \<lparr>raised = None,
       rooms_after = finally_clause ai_id (Some (room1\<lparr>state := (state room1)
          \<lparr>pending_ai_messages := filter (\<lambda>p. p \<noteq> ai_id) (pending_ai_messages (state room1))\<rparr>\<rparr>)),
       sent = [], next_wave = None\<rparr>"
    using pend gen after_generation moved by (simp add: process_single_ai_message_def)
  show "raised (process_single_ai_message env reply now delay (Some room) ai_id) = None"
    and "sent (process_single_ai_message env reply now delay (Some room) ai_id) = []"
    and "next_wave (process_single_ai_message env reply now delay (Some room) ai_id) = None"
    by (simp_all add: t)
  show "\<exists>room'. rooms_after (process_single_ai_message env reply now delay (Some room) ai_id)
                    = Some room' \<and>
                  chat_history (state room') = chat_history (state room1) \<and>
                  phase (state room') = phase (state room1) \<and>
                  ai_id \<notin> ai_processing_agents room'"
    by (simp add: t finally_clause_def)
next
  assume h: "phase (state room1) = DISCUSSION \<and> env 2 (env 1 (Some room1)) = Some room3 \<and>
      phase (state room3) \<noteq> DISCUSSION"
  have t: "process_single_ai_message env reply now delay (Some room) ai_id =
      \<lparr>raised = None, rooms_after = finally_clause ai_id (env 3 (Some room3)),
       sent = [Typing (ai_sender result) Start, Typing (ai_sender result) Stop],
       next_wave = None\<rparr>"
    using pend gen after_generation h by (simp add: process_single_ai_message_def)
  show "raised (process_single_ai_message env reply now delay (Some room) ai_id) = None"
    and "sent (process_single_ai_message env reply now delay (Some room) ai_id)
          = [Typing (ai_sender result) Start, Typing (ai_sender result) Stop]"
    and "next_wave (process_single_ai_message env reply now delay (Some room) ai_id) = None"
    by (simp_all add: t)
  show "map_option state (rooms_after (process_single_ai_message env reply now delay (Some room) ai_id))
          = map_option state (env 3 (Some room3))"
    by (simp add: t finally_clause_state)
  show "\<forall>room'. rooms_after (process_single_ai_message env reply now delay (Some room) ai_id)
                    = Some room' \<longrightarrow> ai_id \<notin> ai_processing_agents room'"
    by (simp add: t finally_clause_processing)
qed

lemma discussion_room_pending: "''A1'' \<in> set (pending_ai_messages (state discussion_room))"
  by (simp add: discussion_room_def)

lemma said_generated: "ai_chat_agent_node (state discussion_room) (Some ''A1'') (Text ''pineapple, obviously'') 12 (3 / 2)
   = Inr (Some said)"
  by (simp add: discussion_room_def fixtures ai_chat_agent_node_def generate_ai_message_def said_def)

lemma timer_ends_discussion: "fst (end_discussion (Some discussion_room)) = Some voting_room"
  by (simp add: discussion_room_def voting_room_def fixtures end_discussion_def active_ais_def)

lemma timer_env:
  "timer_fires_at k k rooms = fst (end_discussion rooms)"
  "i \<noteq> k \<Longrightarrow> timer_fires_at k i rooms = rooms"
  by (simp_all add: timer_fires_at_def)

lemma voting_room_facts:
  "phase (state voting_room) = VOTING" "chat_history (state voting_room) = []"
  by (simp_all add: voting_room_def fixtures)

lemma discussion_room_facts:
  "phase (state discussion_room) = DISCUSSION" "chat_history (state discussion_room) = []"
  by (simp_all add: discussion_room_def fixtures)

text \<open>
  Claim C2 at the scenario of the specification: the agent \<open>A1\<close> is about to say
  its message when the timer of the discussion fires, during the generation (suspension
  0) or during the typing delay (suspension 2). The room is in the phase \<^verbatim>\<open>VOTING\<close>
  with an empty chat history, and \<open>A1\<close> is not processing.
\<close>

theorem stale_turn_is_dropped_witness:
  "''A1'' \<in> set (pending_ai_messages (state discussion_room)) \<and>
   ai_chat_agent_node (state discussion_room) (Some ''A1'') (Text ''pineapple, obviously'') 12 (3 / 2)
     = Inr (Some said) \<and>
   timer_fires_at 0 0 (Some discussion_room) = Some voting_room \<and>
   phase (state voting_room) \<noteq> DISCUSSION \<and>
   (\<exists>room'. rooms_after (process_single_ai_message (timer_fires_at 0)
                 (Text ''pineapple, obviously'') 12 (3 / 2) (Some discussion_room) ''A1'') = Some room' \<and>
             chat_history (state room') = [] \<and> phase (state room') = VOTING \<and>
             ''A1'' \<notin> ai_processing_agents room') \<and>
   timer_fires_at 2 0 (Some discussion_room) = Some discussion_room \<and>
   phase (state discussion_room) = DISCUSSION \<and>
   timer_fires_at 2 2 (timer_fires_at 2 1 (Some discussion_room)) = Some voting_room \<and>
   sent (process_single_ai_message (timer_fires_at 2)
           (Text ''pineapple, obviously'') 12 (3 / 2) (Some discussion_room) ''A1'')
     = [Typing ''A1'' Start, Typing ''A1'' Stop] \<and>
   map_option state (rooms_after (process_single_ai_message (timer_fires_at 2)
           (Text ''pineapple, obviously'') 12 (3 / 2) (Some discussion_room) ''A1''))
     = Some (state voting_room)"
proof -
  have e0: "timer_fires_at 0 0 (Some discussion_room) = Some voting_room"
    by (simp add: timer_env timer_ends_discussion)
  have e2: "timer_fires_at 2 0 (Some discussion_room) = Some discussion_room"
    by (simp add: timer_env)
  have e3: "timer_fires_at 2 2 (timer_fires_at 2 1 (Some discussion_room)) = Some voting_room"
    by (simp add: timer_env timer_ends_discussion)
  have e4: "timer_fires_at 2 3 (Some voting_room) = Some voting_room"
    by (simp add: timer_env)
  have sender: "ai_sender said = ''A1''" by (simp add: said_def)
  note first = stale_turn_is_dropped [where env = "timer_fires_at 0" and ?room3.0 = undefined,
      OF discussion_room_pending said_generated e0]
  note second = stale_turn_is_dropped [where env = "timer_fires_at 2" and ?room3.0 = voting_room,
      OF discussion_room_pending said_generated e2]
  show ?thesis
    using first second
    by (simp add: discussion_room_pending said_generated e0 e2 e3 e4 sender voting_room_facts discussion_room_facts
        del: One_nat_def)
qed

section \<open>A new game: properties\<close>

lemma call_create_initial_state_two_arguments:
  "call_create_initial_state d code n [] = Inr (create_initial_state d code n)"
  by (simp add: call_create_initial_state_def)

lemma length_shuffle_from: "length (shuffle_from i rnd xs) = length xs"
  by (induction i rnd xs rule: shuffle_from.induct) (simp_all add: swap_def)

lemma mset_shuffle_from: "i < length xs \<Longrightarrow> mset (shuffle_from i rnd xs) = mset xs"
proof (induction i rnd xs rule: shuffle_from.induct)
  case (2 i rnd xs)
  have j: "rnd (Suc i) mod (Suc i + 1) < length xs"
  proof -
    have "rnd (Suc i) mod (Suc i + 1) < Suc i + 1" by (rule mod_less_divisor) simp
    with 2(2) show ?thesis by linarith
  qed
  have "mset (swap xs (Suc i) (rnd (Suc i) mod (Suc i + 1))) = mset xs"
    unfolding swap_def using 2(2) j by (simp add: mset_swap)
  moreover have "i < length (swap xs (Suc i) (rnd (Suc i) mod (Suc i + 1)))"
    using 2(2) by (simp add: swap_def)
  ultimately show ?case using 2(1) by simp
qed simp

lemma mset_shuffle: "mset (shuffle rnd xs) = mset xs"
proof (cases xs)
  case Nil
  then show ?thesis by (simp add: shuffle_def)
next
  case (Cons x ys)
  then show ?thesis by (simp add: shuffle_def mset_shuffle_from)
qed

lemma length_shuffle: "length (shuffle rnd xs) = length xs"
  by (simp add: shuffle_def length_shuffle_from)

lemma pid_of_named:
  "length ps = length names \<Longrightarrow>
   map pid (map (\<lambda>(name, p). \<lparr>pid = name, role = AI, eliminated = False, personality = Some p\<rparr>)
          (zip names ps)) = names"
  by (induction names ps rule: list_induct2') simp_all

lemma players_create_initial_state:
  "players (create_initial_state d code n) =
     map (\<lambda>(name, p). \<lparr>pid = name, role = AI, eliminated = False, personality = Some p\<rparr>)
       (zip (shuffle (name_draws d) (player_names n))
            (map (\<lambda>k. pick (personality_draws d k) AI_PERSONALITIES)
               [0..<length (shuffle (name_draws d) (player_names n))]))"
  by (simp add: create_initial_state_def Let_def)

lemma create_initial_state_players:
  "mset (map pid (players (create_initial_state d code n))) = mset (player_names n) \<and>
   list_all (\<lambda>p. role p = AI \<and> \<not> eliminated p) (players (create_initial_state d code n))"
proof
  show "mset (map pid (players (create_initial_state d code n))) = mset (player_names n)"
    unfolding players_create_initial_state by (subst pid_of_named) (simp_all add: mset_shuffle)
  show "list_all (\<lambda>p. role p = AI \<and> \<not> eliminated p) (players (create_initial_state d code n))"
    unfolding players_create_initial_state by (simp add: list_all_iff case_prod_unfold)
qed

text \<open>
  Claim C10 holds for a list of agent ids, and fails without one:
  \<^verbatim>\<open>create_game_for_room\<close> passes its third argument on whether it is a list or
  \<^verbatim>\<open>None\<close>, so every call gives \<^verbatim>\<open>create_initial_state\<close> three arguments and
  raises \<^verbatim>\<open>TypeError\<close>; no call returns a state. Called with its two parameters,
  \<^verbatim>\<open>create_initial_state\<close> returns the agents \<^verbatim>\<open>Player 1\<close> to
  \<^verbatim>\<open>Player num_ai_players\<close> in a shuffled order (\<open>create_initial_state_players\<close>).
\<close>

theorem create_game_for_room_raises:
  "create_game_for_room d code n ai_player_ids = Inl TypeError"
  by (simp add: create_game_for_room_def call_create_initial_state_def)

section \<open>The race of the triggers of resolution\<close>

lemmas race_fixtures = two_agents_def held_start_def held_one_vote_def copy_resolved_def
  held_resolved_def vote_each_other_def

lemma first_agent_votes:
  "process_ai_votes_from vote_each_other (\<lambda>ai. 0) 1 0 (human_votes_during 1) 0 0 websocket_room
   = process_ai_votes_from vote_each_other (\<lambda>ai. 0) 1 0 (human_votes_during 1) 1 0
       room_after_first_agent"
  apply (subst process_ai_votes_from.simps)
  apply (simp add: websocket_room_def room_after_first_agent_def human_votes_during_def fixtures
      race_fixtures vote_eval loop_eval upt_rec active_players_def)
  done

lemma human_votes:
  "human_votes_during 1 1 room_after_first_agent = room_after_human"
  by (simp add: room_after_first_agent_def room_after_human_def human_votes_during_def fixtures
      race_fixtures websocket_vote_shared_def complete_voting_shared_def process_human_vote_def
      active_players_def cv_eval fun_upd_twist)

lemma second_agent_votes:
  "process_ai_votes_from vote_each_other (\<lambda>ai. 0) 1 0 (human_votes_during 1) 1 0
       room_after_first_agent
   = Some (None, room_after_race)"
  apply (subst process_ai_votes_from.simps)
  apply (simp only: human_votes)
  apply (simp add: room_after_first_agent_def room_after_human_def room_after_race_def fixtures
      race_fixtures vote_eval loop_eval upt_rec active_players_def complete_voting_shared_def
      cv_eval fun_eq_iff)
  done

text \<open>
  Claim C3 fails on the code when the triggers race. The task \<^verbatim>\<open>process_ai_votes\<close>
  holds the state dict it has read at line 258. The first agent votes. While the vote of
  the second agent is made (line 266), the client \<open>H\<close> votes over its WebSocket: a copy
  of the state with that vote is installed in the room, the votes are as many as the
  players, and \<^verbatim>\<open>complete_voting\<close> resolves on the copy, with the suspect \<open>A2\<close>. The
  task then writes the second agent's vote into the dict it holds, installs that dict
  in the room (line 277), still in the phase \<^verbatim>\<open>VOTING\<close> and without the vote of
  \<open>H\<close>, and calls \<^verbatim>\<open>complete_voting\<close>, whose guard passes: a second resolution, with
  the suspect \<open>A1\<close>. Two results are broadcast.
\<close>

theorem race_resolves_twice:
  "process_ai_votes_shared vote_each_other (\<lambda>ai. 0) 1 0 (human_votes_during 1) websocket_room
     = Some (None, room_after_race) \<and>
   phase (dicts websocket_room (current websocket_room)) = VOTING \<and>
   human_votes_during 1 1 room_after_first_agent = room_after_human \<and>
   phase (dicts room_after_human (current room_after_human)) = GAME_OVER \<and>
   selected_suspect (dicts room_after_human (current room_after_human)) = Some ''A2'' \<and>
   selected_suspect (dicts room_after_race (current room_after_race)) = Some ''A1'' \<and>
   votes (dicts room_after_race (current room_after_race))
     = [(''A1'', Some ''A2''), (''A2'', Some ''A1'')] \<and>
   length (filter (\<lambda>b. case b of Voting_result s r c \<Rightarrow> True | _ \<Rightarrow> False)
             (broadcasts room_after_race)) = 2"
proof -
  have held: "current websocket_room = 0" by (simp add: websocket_room_def)
  have run: "process_ai_votes_shared vote_each_other (\<lambda>ai. 0) 1 0 (human_votes_during 1)
      websocket_room = Some (None, room_after_race)"
    unfolding process_ai_votes_shared_def held
    by (simp only: first_agent_votes second_agent_votes)
  have start: "phase (dicts websocket_room (current websocket_room)) = VOTING"
    by (simp add: websocket_room_def race_fixtures fixtures)
  have first: "phase (dicts room_after_human (current room_after_human)) = GAME_OVER"
    "selected_suspect (dicts room_after_human (current room_after_human)) = Some ''A2''"
    by (simp_all add: room_after_human_def race_fixtures fixtures)
  have second: "selected_suspect (dicts room_after_race (current room_after_race)) = Some ''A1''"
    "votes (dicts room_after_race (current room_after_race))
       = [(''A1'', Some ''A2''), (''A2'', Some ''A1'')]"
    by (simp_all add: room_after_race_def race_fixtures fixtures)
  have twice: "length (filter (\<lambda>b. case b of Voting_result s r c \<Rightarrow> True | _ \<Rightarrow> False)
             (broadcasts room_after_race)) = 2"
    by (simp add: room_after_race_def)
  show ?thesis
    using run start human_votes first second twice by (intro conjI)
qed

section \<open>Votes on the chat platform: properties\<close>

lemmas discord_eval = two_humans_def discord_session_def votes_against_h1_def
  enter_voting_phase_def enter_discussion_phase_def collect_ai_votes_def process_votes_def
  all_votes_def most_common_def check_win_condition_def end_game_def send_vote_dm_def
  vote_callback_def handle_channel_vote_def

lemma round_one_agents:
  "collect_ai_votes (always_votes ''H1'') (\<lambda>ai. 0)
      (enter_voting_phase (discord_session (session DISCUSSION (two_humans False) []) []))
   = Inr (discord_session (session VOTING (two_humans False) votes_against_h1) [])"
  by (simp add: discord_eval fixtures vote_eval loop_eval upt_rec)

lemma round_one_elimination:
  "process_votes (discord_session (session VOTING (two_humans False) votes_against_h1) [])
   = Some (discord_session (session VOTING (two_humans True) votes_against_h1) [])"
  by (simp add: discord_eval fixtures get_default_def)

lemma round_one_goes_on:
  "check_win_condition 2 (discord_session (session VOTING (two_humans True) votes_against_h1) [])
   = (Next_round,
      discord_session ((session VOTING (two_humans True) votes_against_h1)\<lparr>round_no := 2\<rparr>) [])"
  by (simp add: discord_eval fixtures)

lemma round_two_voting:
  "enter_voting_phase (enter_discussion_phase
      (discord_session ((session VOTING (two_humans True) votes_against_h1)\<lparr>round_no := 2\<rparr>) []))
   = discord_session ((session VOTING (two_humans True) votes_against_h1)\<lparr>round_no := 2\<rparr>) []"
  by (simp add: discord_eval fixtures)

text \<open>
  Claim C7 fails on the menu of the direct message. With \<^verbatim>\<open>ROUNDS_TO_WIN\<close> set to 2:
  in the first round the two agents vote for the human \<open>H1\<close>, who is eliminated; the
  human \<open>H2\<close> remains, so the game goes on; the voting phase of the second round
  clears the votes of the humans and sends every player of the room its menu, \<open>H1\<close>
  too; \<open>H1\<close> selects \<open>H2\<close>, and \<^verbatim>\<open>vote_callback\<close> writes the vote, which
  \<^verbatim>\<open>process_votes\<close> will count. In the same session \<^verbatim>\<open>handle_channel_vote\<close> refuses
  the vote of \<open>H1\<close>.
\<close>

theorem eliminated_human_votes_by_menu:
  "collect_ai_votes (always_votes ''H1'') (\<lambda>ai. 0)
      (enter_voting_phase (discord_session (session DISCUSSION (two_humans False) []) []))
     = Inr (discord_session (session VOTING (two_humans False) votes_against_h1) []) \<and>
   process_votes (discord_session (session VOTING (two_humans False) votes_against_h1) [])
     = Some (discord_session (session VOTING (two_humans True) votes_against_h1) []) \<and>
   check_win_condition 2 (discord_session (session VOTING (two_humans True) votes_against_h1) [])
     = (Next_round,
        discord_session ((session VOTING (two_humans True) votes_against_h1)\<lparr>round_no := 2\<rparr>) []) \<and>
   enter_voting_phase (enter_discussion_phase
      (discord_session ((session VOTING (two_humans True) votes_against_h1)\<lparr>round_no := 2\<rparr>) []))
     = discord_session ((session VOTING (two_humans True) votes_against_h1)\<lparr>round_no := 2\<rparr>) [] \<and>
   find (\<lambda>p. pid p = ''H1'') (two_humans True) = Some (player ''H1'' Human True) \<and>
   eliminated (player ''H1'' Human True) \<and>
   send_vote_dm
      (Some (discord_session ((session VOTING (two_humans True) votes_against_h1)\<lparr>round_no := 2\<rparr>) [])) 1
     = Some [''A1'', ''A2'', ''H2''] \<and>
   vote_callback
      (discord_session ((session VOTING (two_humans True) votes_against_h1)\<lparr>round_no := 2\<rparr>) []) 1 ''H2''
     = discord_session ((session VOTING (two_humans True) votes_against_h1)\<lparr>round_no := 2\<rparr>) [(1, ''H2'')] \<and>
   all_votes (discord_session ((session VOTING (two_humans True) votes_against_h1)\<lparr>round_no := 2\<rparr>) [(1, ''H2'')])
     = [(''A1'', Some ''H1''), (''A2'', Some ''H1''), (''H1'', Some ''H2'')] \<and>
   handle_channel_vote lower strip
      (Some (discord_session ((session VOTING (two_humans True) votes_against_h1)\<lparr>round_no := 2\<rparr>) [])) 1 ''H2''
     = ((False, Eliminated_cannot_vote),
        Some (discord_session ((session VOTING (two_humans True) votes_against_h1)\<lparr>round_no := 2\<rparr>) []))"
proof -
  have menu: "send_vote_dm
      (Some (discord_session ((session VOTING (two_humans True) votes_against_h1)\<lparr>round_no := 2\<rparr>) [])) 1
     = Some [''A1'', ''A2'', ''H2'']"
    by (simp add: discord_eval fixtures)
  have written: "vote_callback
      (discord_session ((session VOTING (two_humans True) votes_against_h1)\<lparr>round_no := 2\<rparr>) []) 1 ''H2''
     = discord_session ((session VOTING (two_humans True) votes_against_h1)\<lparr>round_no := 2\<rparr>) [(1, ''H2'')]"
    by (simp add: discord_eval)
  have counted: "all_votes (discord_session ((session VOTING (two_humans True) votes_against_h1)\<lparr>round_no := 2\<rparr>) [(1, ''H2'')])
     = [(''A1'', Some ''H1''), (''A2'', Some ''H1''), (''H1'', Some ''H2'')]"
    by (simp add: discord_eval fixtures)
  have found: "find (\<lambda>p. pid p = ''H1'') (two_humans True) = Some (player ''H1'' Human True)"
    "eliminated (player ''H1'' Human True)"
    by (simp_all add: two_humans_def player_def)
  have refused: "handle_channel_vote lower strip
      (Some (discord_session ((session VOTING (two_humans True) votes_against_h1)\<lparr>round_no := 2\<rparr>) [])) 1 ''H2''
     = ((False, Eliminated_cannot_vote),
        Some (discord_session ((session VOTING (two_humans True) votes_against_h1)\<lparr>round_no := 2\<rparr>) []))"
    by (rule handle_channel_vote_eliminated [where voter = "\<lparr>discord_id = 1, game_player_id = ''H1''\<rparr>"
          and p = "player ''H1'' Human True"])
       (simp_all add: discord_session_def fixtures two_humans_def)
  show ?thesis
    using round_one_agents round_one_elimination round_one_goes_on round_two_voting
      found menu written counted refused
    by (intro conjI)
qed

end
